theory Spec2Isabelle
  imports Main "HOL-Library.Word"
begin

unbundle bit_operations_syntax

section \<open>Network addresses (netaddr.h)\<close>

text \<open>
  \<^verbatim>\<open>netaddr_t\<close> is a struct of a \<^verbatim>\<open>short family\<close>, a \<^verbatim>\<open>ushort bitlen\<close> and a
  16 byte union viewed as \<^verbatim>\<open>bytes[16]\<close>, \<^verbatim>\<open>u16[8]\<close> or \<^verbatim>\<open>u32[4]\<close>. The record keeps
  the byte view; the wider views are read off it. The family is kept as the integer
  the C field holds, with the values of the socket headers on Linux.
\<close>

record netaddr =
  family :: int
  bitlen :: nat
  bytes :: "8 word list"

definition AF_UNSPEC :: int where "AF_UNSPEC = 0"
definition AF_INET :: int where "AF_INET = 2"
definition AF_INET6 :: int where "AF_INET6 = 10"

text \<open>Comparisons of the union views: \<^verbatim>\<open>a->bytes[i] == d->bytes[i]\<close>,
  \<^verbatim>\<open>a->u16[i] == d->u16[i]\<close> and \<^verbatim>\<open>a->u32[i] == d->u32[i]\<close>. Two 16 or 32 bit
  words of the union are equal exactly when the bytes they overlay are, whatever the
  byte order of the host.\<close>

definition b8eq :: "netaddr \<Rightarrow> netaddr \<Rightarrow> nat \<Rightarrow> bool" where
  "b8eq a d i = (bytes a ! i = bytes d ! i)"

definition u16eq :: "netaddr \<Rightarrow> netaddr \<Rightarrow> nat \<Rightarrow> bool" where
  "u16eq a d i = (b8eq a d (2 * i) \<and> b8eq a d (2 * i + 1))"

definition u32eq :: "netaddr \<Rightarrow> netaddr \<Rightarrow> nat \<Rightarrow> bool" where
  "u32eq a d i = (u16eq a d (2 * i) \<and> u16eq a d (2 * i + 1))"

text \<open>\<^verbatim>\<open>(addr->bytes[i] & m) != (dest->bytes[i] & m)\<close> with \<^verbatim>\<open>uint m\<close>: the bytes are
  promoted to 32 bits before the conjunction.\<close>

definition maskdiffer :: "netaddr \<Rightarrow> netaddr \<Rightarrow> nat \<Rightarrow> 32 word \<Rightarrow> bool" where
  "maskdiffer a d i m = ((ucast (bytes a ! i) AND m) \<noteq> (ucast (bytes d ! i) AND m))"

text \<open>The \<^verbatim>\<open>return\<close> expression under each label \<^verbatim>\<open>case 8 * k:\<close> of the switch in
  \<^verbatim>\<open>prefixeqwithmask\<close>, for \<open>k\<close> from 15 down to 1, as the source has them. Under
  \<^verbatim>\<open>case 56:\<close> the source compares \<^verbatim>\<open>addr->bytes[6]\<close> with \<^verbatim>\<open>addr->bytes[6]\<close>.\<close>

fun prefixeq_whole :: "nat \<Rightarrow> netaddr \<Rightarrow> netaddr \<Rightarrow> bool" where
  "prefixeq_whole k a d =
    (if k = 15 then u32eq a d 0 \<and> u32eq a d 1 \<and> u32eq a d 2 \<and> u16eq a d 6 \<and> b8eq a d 14
     else if k = 14 then u32eq a d 0 \<and> u32eq a d 1 \<and> u32eq a d 2 \<and> u16eq a d 6
     else if k = 13 then u32eq a d 0 \<and> u32eq a d 1 \<and> u32eq a d 2 \<and> b8eq a d 12
     else if k = 12 then u32eq a d 0 \<and> u32eq a d 1 \<and> u32eq a d 2
     else if k = 11 then u32eq a d 0 \<and> u32eq a d 1 \<and> u16eq a d 4 \<and> b8eq a d 10
     else if k = 10 then u32eq a d 0 \<and> u32eq a d 1 \<and> u16eq a d 4
     else if k = 9 then u32eq a d 0 \<and> u32eq a d 1 \<and> b8eq a d 8
     else if k = 8 then u32eq a d 0 \<and> u32eq a d 1
     else if k = 7 then u32eq a d 0 \<and> u16eq a d 2 \<and> b8eq a a 6
     else if k = 6 then u32eq a d 0 \<and> u16eq a d 2
     else if k = 5 then u32eq a d 0 \<and> b8eq a d 4
     else if k = 4 then u32eq a d 0
     else if k = 3 then u16eq a d 0 \<and> b8eq a d 2
     else if k = 2 then u16eq a d 0
     else b8eq a d 0)"

text \<open>
  \<^verbatim>\<open>prefixeqwithmask(addr, dest, mask)\<close>. The switch has one label per value of
  \<^verbatim>\<open>mask\<close> from 0 to 128 and \<^verbatim>\<open>NODEFAULT\<close> (unreachable) otherwise, after
  \<^verbatim>\<open>assert(mask <= 128)\<close>: a larger mask is \<open>None\<close>. The labels \<open>8 * k + 1\<close> to
  \<open>8 * k + 7\<close> share one body, which compares byte \<open>k\<close> under
  \<^verbatim>\<open>m = ~0u << (8 - (mask & 7))\<close> and falls through to \<^verbatim>\<open>case 8 * k\<close>; the labels 1 to 7
  return the masked comparison of byte 0, and label 0 returns true.
\<close>

definition prefixeqwithmask :: "netaddr \<Rightarrow> netaddr \<Rightarrow> nat \<Rightarrow> bool option" where
  "prefixeqwithmask addr dest msk =
    (let m = push_bit (8 - (msk mod 8)) (- 1 :: 32 word) in
     if msk > 128 then None
     else if msk = 128 then
       Some (u32eq addr dest 0 \<and> u32eq addr dest 1 \<and> u32eq addr dest 2 \<and> u32eq addr dest 3)
     else if msk = 0 then Some True
     else if msk < 8 then Some (\<not> maskdiffer addr dest 0 m)
     else if msk mod 8 \<noteq> 0 \<and> maskdiffer addr dest (msk div 8) m then Some False
     else Some (prefixeq_whole (msk div 8) addr dest))"

text \<open>\<^verbatim>\<open>prefixeq\<close>: same family, same length and the same leading bits.\<close>

definition prefixeq :: "netaddr \<Rightarrow> netaddr \<Rightarrow> bool option" where
  "prefixeq a b =
    (if family a = family b \<and> bitlen a = bitlen b then prefixeqwithmask a b (bitlen a)
     else Some False)"

text \<open>The specification's reading of \<^verbatim>\<open>prefixeqwithmask\<close>: the first \<open>n\<close> bits of the two
  byte arrays agree, bit 0 being the most significant bit of byte 0.\<close>

definition addr_bit :: "netaddr \<Rightarrow> nat \<Rightarrow> bool" where
  "addr_bit a i = bit (bytes a ! (i div 8)) (7 - i mod 8)"

definition first_bits :: "netaddr \<Rightarrow> nat \<Rightarrow> bool list" where
  "first_bits a n = map (addr_bit a) [0..<n]"

definition first_bits_equal :: "netaddr \<Rightarrow> netaddr \<Rightarrow> nat \<Rightarrow> bool" where
  "first_bits_equal a b n = (first_bits a n = first_bits b n)"

definition zero_bytes :: "8 word list" where
  "zero_bytes = replicate 16 0"

definition addr_zero6 :: netaddr where
  "addr_zero6 = \<lparr>family = AF_INET6, bitlen = 56, bytes = zero_bytes\<rparr>"

definition addr_byte6 :: netaddr where
  "addr_byte6 = \<lparr>family = AF_INET6, bitlen = 56, bytes = zero_bytes[6 := 1]\<rparr>"

section \<open>Patricia trie (patriciatrie.c)\<close>

text \<open>
  A node (\<^verbatim>\<open>union pnode_s\<close>) holds its prefix, the user's payload, the parent pointer,
  whose least significant bit says whether the node is glue, and two children. Nodes live
  in pages of 128 and are named here by their place in memory: node \<open>128 * k + i\<close> is
  \<^verbatim>\<open>block[i]\<close> of the \<open>k\<close>-th page allocated. A pointer is a \<open>nat option\<close>, \<open>None\<close> being
  \<^verbatim>\<open>NULL\<close>. The payload is an opaque pointer, 0 for \<^verbatim>\<open>NULL\<close>.
\<close>

record pnode =
  prefix :: netaddr
  payload :: nat
  parent :: "nat option"
  glue :: bool
  child0 :: "nat option"
  child1 :: "nat option"

record patricia_trie =
  nodes :: "nat \<Rightarrow> pnode"
  head :: "nat option"
  maxbitlen :: nat
  nprefs :: "32 word"
  pages :: nat
  freenodes :: "nat list"

definition PREFIX_INSERTED :: int where "PREFIX_INSERTED = 0"
definition PREFIX_ALREADY_PRESENT :: int where "PREFIX_ALREADY_PRESENT = 1"

definition children :: "pnode \<Rightarrow> bool \<Rightarrow> nat option" where
  "children n b = (if b then child1 n else child0 n)"

definition set_children :: "pnode \<Rightarrow> bool \<Rightarrow> nat option \<Rightarrow> pnode" where
  "set_children n b c = (if b then n\<lparr>child1 := c\<rparr> else n\<lparr>child0 := c\<rparr>)"

text \<open>\<^verbatim>\<open>pnodeinit\<close>: the node is zeroed, then the prefix is copied in; without a prefix the
  family is \<^verbatim>\<open>AF_UNSPEC\<close>.\<close>

definition pnodeinit :: "netaddr option \<Rightarrow> pnode" where
  "pnodeinit p =
    \<lparr>prefix = (case p of Some q \<Rightarrow> q
                | None \<Rightarrow> \<lparr>family = AF_UNSPEC, bitlen = 0, bytes = zero_bytes\<rparr>),
     payload = 0, parent = None, glue = False, child0 = None, child1 = None\<rparr>"

text \<open>\<^verbatim>\<open>patinit\<close>; the memory of nodes not yet allocated is never read.\<close>

definition patinit :: "(nat \<Rightarrow> pnode) \<Rightarrow> int \<Rightarrow> patricia_trie" where
  "patinit mem fam =
    \<lparr>nodes = mem, head = None, maxbitlen = (if fam = AF_INET6 then 128 else 32),
     nprefs = 0, pages = 0, freenodes = []\<rparr>"

text \<open>
  \<^verbatim>\<open>getfreenode\<close> with \<^verbatim>\<open>patallocpage\<close>: when the free list is empty a page is
  requested from \<^verbatim>\<open>malloc\<close>, whose success is the argument \<open>ok\<close>; the page's nodes are
  pushed on the free list from \<^verbatim>\<open>block[0]\<close> to \<^verbatim>\<open>block[127]\<close>, so that \<^verbatim>\<open>block[127]\<close> is
  handed out first.
\<close>

definition getfreenode :: "bool \<Rightarrow> patricia_trie \<Rightarrow> nat option \<times> patricia_trie" where
  "getfreenode ok pt =
    (case freenodes pt of
       n # rest \<Rightarrow> (Some n, pt\<lparr>freenodes := rest\<rparr>)
     | [] \<Rightarrow>
        if ok then
          (let fl = rev [128 * pages pt ..< 128 * pages pt + 128] in
           (Some (hd fl), pt\<lparr>pages := pages pt + 1, freenodes := tl fl\<rparr>))
        else (None, pt))"

text \<open>
  \<^verbatim>\<open>putfreenode\<close>. The link \<^verbatim>\<open>n->next\<close> is a member of the node union and lies over the
  first bytes of the node, where the family, the length and the first address bytes of
  the prefix are. What the prefix reads as once the link is stored depends on the
  pointer's representation and is the argument \<open>img\<close> (from the stored pointer and the
  old prefix to the prefix as it reads afterwards).
\<close>

definition putfreenode ::
  "(nat option \<Rightarrow> netaddr \<Rightarrow> netaddr) \<Rightarrow> patricia_trie \<Rightarrow> nat \<Rightarrow> patricia_trie" where
  "putfreenode img pt n =
    (let save = (case freenodes pt of [] \<Rightarrow> None | m # _ \<Rightarrow> Some m);
         nd = nodes pt n in
     pt\<lparr>freenodes := n # freenodes pt,
        nodes := (nodes pt)(n := nd\<lparr>prefix := img save (prefix nd)\<rparr>)\<rparr>)"

text \<open>The bit of a key at a position: \<^verbatim>\<open>prefix->bytes[pos >> 3] & (0x80 >> (pos & 0x07))\<close>.\<close>

definition keybit :: "netaddr \<Rightarrow> nat \<Rightarrow> bool" where
  "keybit p pos = (bytes p ! (pos div 8) AND drop_bit (pos mod 8) 0x80 \<noteq> 0)"

text \<open>\<^verbatim>\<open>patcompwithmask\<close>: \<^verbatim>\<open>memcmp\<close> over the whole bytes, then the last byte under
  the mask unless the length is a multiple of 8.\<close>

definition patcompwithmask :: "netaddr \<Rightarrow> netaddr \<Rightarrow> nat \<Rightarrow> bool" where
  "patcompwithmask addr dest msk =
    (if take (msk div 8) (bytes addr) = take (msk div 8) (bytes dest) then
       (let n = msk div 8; m = push_bit (8 - msk mod 8) (- 1 :: 32 word) in
        msk mod 8 = 0 \<or> (ucast (bytes addr ! n) AND m) = (ucast (bytes dest ! n) AND m))
     else False)"

text \<open>The first loop of \<^verbatim>\<open>patinsert\<close>: down from the head along the key's bits, while the
  node is shorter than the key or is glue, until the child on the key's side is missing.
  On a store whose child pointers form a cycle the loop does not end: the result is
  \<open>None\<close>.\<close>

partial_function (option) insert_descend ::
  "(nat \<Rightarrow> pnode) \<Rightarrow> nat \<Rightarrow> netaddr \<Rightarrow> nat \<Rightarrow> nat option" where
  "insert_descend ns maxbits p n =
    (if bitlen (prefix (ns n)) < bitlen p \<or> glue (ns n) then
       (let b = (bitlen (prefix (ns n)) < maxbits \<and> keybit p (bitlen (prefix (ns n)))) in
        case children (ns n) b of
          None \<Rightarrow> Some n
        | Some c \<Rightarrow> insert_descend ns maxbits p c)
     else Some n)"

declare insert_descend.simps [code]

text \<open>The search for the first differing bit, byte by byte (the branch under \<^verbatim>\<open>#if 1\<close>):
  the inner loop finds the first set bit of \<^verbatim>\<open>r\<close> from the most significant one.\<close>

function first_set :: "32 word \<Rightarrow> nat \<Rightarrow> nat" where
  "first_set r j =
    (if j < 8 then (if r AND drop_bit j 0x80 \<noteq> 0 then j else first_set r (j + 1)) else j)"
  by pat_completeness auto
termination
  by (relation "measure (\<lambda>(r, j). 8 - j)") auto

function differ_loop :: "netaddr \<Rightarrow> netaddr \<Rightarrow> nat \<Rightarrow> nat \<Rightarrow> nat \<Rightarrow> nat \<Rightarrow> nat" where
  "differ_loop p q check_bit i z differ_bit =
    (if z < check_bit then
       (let r = (ucast (bytes p ! i) XOR ucast (bytes q ! i) :: 32 word) in
        if r = 0 then differ_loop p q check_bit (i + 1) (z + 8) (z + 8)
        else z + first_set r 0)
     else differ_bit)"
  by pat_completeness auto
termination
  by (relation "measure (\<lambda>(p, q, check_bit, i, z, d). check_bit - z)") auto

text \<open>The walk back up: while the parent is at least as long as the differing bit.\<close>

partial_function (option) insert_ascend ::
  "(nat \<Rightarrow> pnode) \<Rightarrow> nat \<Rightarrow> nat \<Rightarrow> nat option" where
  "insert_ascend ns differ_bit n =
    (case parent (ns n) of
       None \<Rightarrow> Some n
     | Some pa \<Rightarrow>
        if bitlen (prefix (ns pa)) \<ge> differ_bit then insert_ascend ns differ_bit pa
        else Some n)"

declare insert_ascend.simps [code]

text \<open>A write through a node pointer: the node is read from the store as it is at that
  moment, so that two pointers to one node see each other's writes.\<close>

definition upd :: "patricia_trie \<Rightarrow> nat \<Rightarrow> (pnode \<Rightarrow> pnode) \<Rightarrow> patricia_trie" where
  "upd pt i f = pt\<lparr>nodes := (nodes pt)(i := f (nodes pt i))\<rparr>"

text \<open>
  The second half of \<^verbatim>\<open>patinsert\<close>, from the test for an exact match on: \<open>n0\<close> is the
  node where the descent stopped (\<^verbatim>\<open>test_addr\<close> points into it), \<open>n\<close> the node reached by
  the walk back up. The result is the node returned, \<^verbatim>\<open>*inserted\<close> and the trie.
  The source tests \<^verbatim>\<open>n->prefix.bitlen == differ_bit\<close> twice in a row; the body of the
  second test is kept where the source has it.
\<close>

definition insert_at ::
  "bool \<Rightarrow> patricia_trie \<Rightarrow> netaddr \<Rightarrow> nat \<Rightarrow> nat \<Rightarrow> nat \<Rightarrow> nat option \<times> int \<times> patricia_trie" where
  "insert_at ok pt p n0 n differ_bit =
    (let maxbits = maxbitlen pt in
     if differ_bit = bitlen p \<and> bitlen (prefix (nodes pt n)) = bitlen p then
       (if glue (nodes pt n) then (Some n, PREFIX_ALREADY_PRESENT, pt)
        else (Some n, PREFIX_ALREADY_PRESENT,
              upd (pt\<lparr>nprefs := nprefs pt + 1\<rparr>) n (\<lambda>x. x\<lparr>prefix := p, glue := False\<rparr>)))
     else
       (case getfreenode ok pt of
          (None, pt1) \<Rightarrow> (None, PREFIX_ALREADY_PRESENT, pt1)
        | (Some newnode, pt1) \<Rightarrow>
           (let pt2 = (upd pt1 newnode (\<lambda>x. pnodeinit (Some p)))\<lparr>nprefs := nprefs pt1 + 1\<rparr> in
            if bitlen (prefix (nodes pt2 n)) = differ_bit then
              (let pt3 = upd pt2 newnode (\<lambda>x. x\<lparr>parent := Some n\<rparr>);
                   b = (bitlen (prefix (nodes pt3 n)) < maxbits
                        \<and> keybit p (bitlen (prefix (nodes pt3 n))));
                   pt4 = upd pt3 n (\<lambda>x. set_children x b (Some newnode))
               in (Some newnode, PREFIX_INSERTED, pt4))
            else if bitlen (prefix (nodes pt2 n)) = differ_bit then
              (let b = (bitlen p < maxbits \<and> keybit (prefix (nodes pt2 n0)) (bitlen p));
                   pt3 = upd pt2 newnode (\<lambda>x. set_children x b (Some n));
                   pt4 = upd pt3 newnode (\<lambda>x. x\<lparr>parent := Some n\<rparr>);
                   pt5 = (case parent (nodes pt4 n) of
                            None \<Rightarrow> pt4\<lparr>head := Some newnode\<rparr>
                          | Some pa \<Rightarrow>
                             if child1 (nodes pt4 pa) = Some n
                             then upd pt4 pa (\<lambda>x. set_children x (child1 (nodes pt4 pa) = Some n) (Some n))
                             else pt4);
                   pt6 = upd pt5 n (\<lambda>x. x\<lparr>parent := Some newnode\<rparr>)
               in (Some newnode, PREFIX_INSERTED, pt6))
            else
              (case getfreenode ok pt2 of
                 (None, pt3) \<Rightarrow> (None, PREFIX_ALREADY_PRESENT, pt3)
               | (Some g, pt3) \<Rightarrow>
                  (let pt4 = upd pt3 g (\<lambda>x. pnodeinit None);
                       pt5 = upd pt4 g (\<lambda>x. x\<lparr>prefix := (prefix x)\<lparr>bitlen := differ_bit\<rparr>\<rparr>);
                       pt6 = upd pt5 g (\<lambda>x. x\<lparr>glue := True\<rparr>);
                       pt7 = upd pt6 g (\<lambda>x. x\<lparr>parent := parent (nodes pt6 n)\<rparr>);
                       b = (differ_bit < maxbits \<and> keybit p differ_bit);
                       pt8 = upd pt7 g (\<lambda>x. set_children x b (Some newnode));
                       pt9 = upd pt8 g (\<lambda>x. set_children x (\<not> b) (Some n));
                       pt10 = upd pt9 newnode (\<lambda>x. x\<lparr>parent := Some g\<rparr>);
                       pt11 = (case parent (nodes pt10 n) of
                                 None \<Rightarrow> pt10\<lparr>head := Some g\<rparr>
                               | Some pa \<Rightarrow>
                                  upd pt10 pa
                                    (\<lambda>x. set_children x (child1 (nodes pt10 pa) = Some n) (Some g)));
                       pt12 = upd pt11 n (\<lambda>x. x\<lparr>parent := Some g\<rparr>)
                   in (Some newnode, PREFIX_INSERTED, pt12))))))"

text \<open>
  \<^verbatim>\<open>patinsert(pt, prefix, &inserted)\<close>. \<open>None\<close> stands for a call that does not
  return (a loop running round a cyclic store); otherwise the result is the node returned
  (\<open>None\<close> for \<^verbatim>\<open>NULL\<close>, out of memory), the value left in \<^verbatim>\<open>*inserted\<close>, and the trie.
\<close>

definition patinsert ::
  "bool \<Rightarrow> patricia_trie \<Rightarrow> netaddr \<Rightarrow> (nat option \<times> int \<times> patricia_trie) option" where
  "patinsert ok pt p =
    (case head pt of
       None \<Rightarrow>
        (case getfreenode ok pt of
           (None, pt1) \<Rightarrow> Some (None, PREFIX_ALREADY_PRESENT, pt1)
         | (Some n, pt1) \<Rightarrow>
            Some (Some n, PREFIX_INSERTED,
                  (upd pt1 n (\<lambda>x. pnodeinit (Some p)))
                    \<lparr>head := Some n, nprefs := nprefs pt1 + 1\<rparr>))
     | Some h \<Rightarrow>
        (case insert_descend (nodes pt) (maxbitlen pt) p h of
           None \<Rightarrow> None
         | Some n0 \<Rightarrow>
            (let check_bit = min (bitlen (prefix (nodes pt n0))) (bitlen p);
                 d = differ_loop p (prefix (nodes pt n0)) check_bit 0 0 0;
                 differ_bit = (if d > check_bit then check_bit else d)
             in case insert_ascend (nodes pt) differ_bit n0 of
                  None \<Rightarrow> None
                | Some n \<Rightarrow> Some (insert_at ok pt p n0 n differ_bit))))"

text \<open>\<^verbatim>\<open>patsearchexact\<close>: the walk follows the key's bits while the node is shorter than
  the key; the node found must have the key's length, not be glue, and agree with the key
  on its bits. The outer \<open>None\<close> is a walk that does not end, the inner one \<^verbatim>\<open>NULL\<close>.\<close>

partial_function (option) search_walk ::
  "(nat \<Rightarrow> pnode) \<Rightarrow> netaddr \<Rightarrow> nat \<Rightarrow> nat option option" where
  "search_walk ns p n =
    (if bitlen (prefix (ns n)) < bitlen p then
       (case children (ns n) (keybit p (bitlen (prefix (ns n)))) of
          None \<Rightarrow> Some None
        | Some c \<Rightarrow> search_walk ns p c)
     else Some (Some n))"

declare search_walk.simps [code]

definition patsearchexact :: "patricia_trie \<Rightarrow> netaddr \<Rightarrow> nat option option" where
  "patsearchexact pt p =
    (case head pt of
       None \<Rightarrow> Some None
     | Some h \<Rightarrow>
        (case search_walk (nodes pt) p h of
           None \<Rightarrow> None
         | Some None \<Rightarrow> Some None
         | Some (Some n) \<Rightarrow>
            if bitlen (prefix (nodes pt n)) > bitlen p \<or> glue (nodes pt n) then Some None
            else if patcompwithmask (prefix (nodes pt n)) p (bitlen p) then Some (Some n)
            else Some None))"

text \<open>
  \<^verbatim>\<open>patremove(pt, prefix)\<close>. The count \<^verbatim>\<open>nprefs\<close> is decremented right after the search,
  before the test of its result. A node with both children is put on the free list and
  marked glue; a leaf is unlinked, and its parent too when the parent is glue; a node with
  one child is replaced by the child. The result is the payload returned (0 for
  \<^verbatim>\<open>NULL\<close>) and the trie; \<open>None\<close> is a call that does not return normally (a search
  that does not end, or the dereference of a missing sibling under a glue parent).
\<close>

definition patremove ::
  "(nat option \<Rightarrow> netaddr \<Rightarrow> netaddr) \<Rightarrow> patricia_trie \<Rightarrow> netaddr \<Rightarrow> (nat \<times> patricia_trie) option" where
  "patremove img pt p =
    (case patsearchexact pt p of
       None \<Rightarrow> None
     | Some found \<Rightarrow>
        (let pt0 = pt\<lparr>nprefs := nprefs pt - 1\<rparr> in
         case found of
           None \<Rightarrow> Some (0, pt0)
         | Some n \<Rightarrow>
            (let pl = payload (nodes pt0 n) in
             if child0 (nodes pt0 n) \<noteq> None \<and> child1 (nodes pt0 n) \<noteq> None then
               (let pt1 = putfreenode img pt0 n;
                    pt2 = upd pt1 n (\<lambda>x. x\<lparr>glue := True\<rparr>)
                in Some (pl, pt2))
             else if child0 (nodes pt0 n) = None \<and> child1 (nodes pt0 n) = None then
               (let par = parent (nodes pt0 n);
                    pt1 = putfreenode img pt0 n
                in case par of
                     None \<Rightarrow> Some (pl, pt1\<lparr>head := None\<rparr>)
                   | Some pa \<Rightarrow>
                      (let b = (child1 (nodes pt1 pa) = Some n);
                           pt2 = upd pt1 pa (\<lambda>x. set_children x b None);
                           child = children (nodes pt2 pa) (\<not> b)
                       in if \<not> glue (nodes pt2 pa) then Some (pl, pt2)
                          else
                            (let pt3 = (case parent (nodes pt2 pa) of
                                          None \<Rightarrow> pt2\<lparr>head := child\<rparr>
                                        | Some gp \<Rightarrow>
                                           upd pt2 gp
                                             (\<lambda>x. set_children x (child1 (nodes pt2 gp) = Some pa) child))
                             in case child of
                                  None \<Rightarrow> None
                                | Some c \<Rightarrow>
                                   (let pt4 = upd pt3 c (\<lambda>x. x\<lparr>parent := parent (nodes pt3 pa)\<rparr>);
                                        pt5 = putfreenode img pt4 pa
                                    in Some (pl, pt5)))))
             else
               (let b = (child1 (nodes pt0 n) \<noteq> None) in
                case children (nodes pt0 n) b of
                  None \<Rightarrow> None
                | Some c \<Rightarrow>
                   (let par = parent (nodes pt0 n);
                        pt1 = upd pt0 c (\<lambda>x. x\<lparr>parent := par\<rparr>);
                        pt2 = putfreenode img pt1 n
                    in case par of
                         None \<Rightarrow> Some (pl, pt2\<lparr>head := Some c\<rparr>)
                       | Some pa \<Rightarrow>
                          Some (pl, upd pt2 pa
                                  (\<lambda>x. set_children x (child1 (nodes pt2 pa) = Some n) (Some c))))))))"

text \<open>\<^verbatim>\<open>patclear\<close>: the trie is emptied and every node of every page goes back on the
  free list, the newest page first.\<close>

definition patclear :: "(nat option \<Rightarrow> netaddr \<Rightarrow> netaddr) \<Rightarrow> patricia_trie \<Rightarrow> patricia_trie" where
  "patclear img pt =
    foldl (putfreenode img) (pt\<lparr>head := None, nprefs := 0, freenodes := []\<rparr>)
      (concat (map (\<lambda>k. [128 * k ..< 128 * k + 128]) (rev [0 ..< pages pt])))"

subsection \<open>Coverage\<close>

text \<open>\<^verbatim>\<open>u128add\<close> is the addition of \<open>128 word\<close>. \<^verbatim>\<open>u128shl\<close> shifts left; the portable
  branch returns zero for a shift of 128 or more (the branch on \<^verbatim>\<open>__uint128_t\<close> agrees
  with it below 128).\<close>

definition u128shl :: "128 word \<Rightarrow> nat \<Rightarrow> 128 word" where
  "u128shl u bits = (if bits \<ge> 128 then 0 else push_bit bits u)"

text \<open>
  The loop of \<^verbatim>\<open>patcoverage\<close>, with its explicit stack of \<^verbatim>\<open>maxbitlen + 1\<close> pointers (the
  top is the head of the list). A node that is not glue and is not the default route adds
  \<^verbatim>\<open>1 << (maxbitlen - bitlen)\<close>, the subtraction being one of \<^verbatim>\<open>uint\<close>, and the walk goes on
  with the node popped from the stack: the children of a counted node are not visited.
  \<open>None\<close> is a walk that does not end or a push on the full stack.
\<close>

partial_function (option) coverage_loop ::
  "(nat \<Rightarrow> pnode) \<Rightarrow> nat \<Rightarrow> nat option \<Rightarrow> nat list \<Rightarrow> 128 word \<Rightarrow> 128 word option" where
  "coverage_loop ns maxbits nxt stk coverage =
    (case nxt of
       None \<Rightarrow> Some coverage
     | Some n \<Rightarrow>
        if \<not> glue (ns n) \<and> bitlen (prefix (ns n)) \<noteq> 0 then
          (let coverage' = coverage
                 + u128shl 1 (unat (of_nat maxbits - of_nat (bitlen (prefix (ns n))) :: 32 word))
           in case stk of
                [] \<Rightarrow> coverage_loop ns maxbits None [] coverage'
              | t # rest \<Rightarrow> coverage_loop ns maxbits (Some t) rest coverage')
        else
          (case child0 (ns n) of
             Some l \<Rightarrow>
              (case child1 (ns n) of
                 Some r \<Rightarrow>
                  if length stk < maxbits + 1 then coverage_loop ns maxbits (Some l) (r # stk) coverage
                  else None
               | None \<Rightarrow> coverage_loop ns maxbits (Some l) stk coverage)
           | None \<Rightarrow>
              (case child1 (ns n) of
                 Some r \<Rightarrow> coverage_loop ns maxbits (Some r) stk coverage
               | None \<Rightarrow>
                  (case stk of
                     [] \<Rightarrow> coverage_loop ns maxbits None [] coverage
                   | t # rest \<Rightarrow> coverage_loop ns maxbits (Some t) rest coverage))))"

declare coverage_loop.simps [code]

definition patcoverage :: "patricia_trie \<Rightarrow> 128 word option" where
  "patcoverage pt = coverage_loop (nodes pt) (maxbitlen pt) (head pt) [] 0"

subsection \<open>Iterator\<close>

text \<open>The iterator state: the stack of 129 pointers (the top is the head of the list) and
  the current node.\<close>

record patiterator =
  stack :: "nat list"
  curr :: "nat option"

text \<open>\<^verbatim>\<open>patiteratormovenext\<close>; \<open>None\<close> when the current node is \<^verbatim>\<open>NULL\<close> or the stack is
  full.\<close>

definition patiteratormovenext :: "(nat \<Rightarrow> pnode) \<Rightarrow> patiterator \<Rightarrow> patiterator option" where
  "patiteratormovenext ns st =
    (case curr st of
       None \<Rightarrow> None
     | Some c \<Rightarrow>
        (case child0 (ns c) of
           Some l \<Rightarrow>
            (case child1 (ns c) of
               Some r \<Rightarrow>
                if length (stack st) < 129 then Some \<lparr>stack = r # stack st, curr = Some l\<rparr>
                else None
             | None \<Rightarrow> Some (st\<lparr>curr := Some l\<rparr>))
         | None \<Rightarrow>
            (case child1 (ns c) of
               Some r \<Rightarrow> Some (st\<lparr>curr := Some r\<rparr>)
             | None \<Rightarrow>
                (case stack st of
                   [] \<Rightarrow> Some (st\<lparr>curr := None\<rparr>)
                 | t # rest \<Rightarrow> Some \<lparr>stack = rest, curr = Some t\<rparr>))))"

partial_function (option) patiteratorskipglue ::
  "(nat \<Rightarrow> pnode) \<Rightarrow> patiterator \<Rightarrow> patiterator option" where
  "patiteratorskipglue ns st =
    (case curr st of
       None \<Rightarrow> Some st
     | Some c \<Rightarrow>
        if glue (ns c) then
          (case patiteratormovenext ns st of
             None \<Rightarrow> None
           | Some st' \<Rightarrow> patiteratorskipglue ns st')
        else Some st)"

declare patiteratorskipglue.simps [code]

definition patiteratorinit :: "patricia_trie \<Rightarrow> patiterator option" where
  "patiteratorinit pt = patiteratorskipglue (nodes pt) \<lparr>stack = [], curr = head pt\<rparr>"

definition patiteratorget :: "patiterator \<Rightarrow> nat option" where
  "patiteratorget st = curr st"

definition patiteratornext :: "patricia_trie \<Rightarrow> patiterator \<Rightarrow> patiterator option" where
  "patiteratornext pt st =
    (case patiteratormovenext (nodes pt) st of
       None \<Rightarrow> None
     | Some st' \<Rightarrow> patiteratorskipglue (nodes pt) st')"

definition patiteratorend :: "patiterator \<Rightarrow> bool" where
  "patiteratorend st = (curr st = None)"

text \<open>The loop every user of the iterator writes (as \<^verbatim>\<open>testpatiterator\<close> does): from
  \<^verbatim>\<open>patiteratorinit\<close>, while not \<^verbatim>\<open>patiteratorend\<close>, take \<^verbatim>\<open>patiteratorget\<close> and call
  \<^verbatim>\<open>patiteratornext\<close>. The result is the list of the prefixes emitted, in order.\<close>

partial_function (option) iterate_from ::
  "patricia_trie \<Rightarrow> patiterator \<Rightarrow> netaddr list \<Rightarrow> netaddr list option" where
  "iterate_from pt st out =
    (case patiteratorget st of
       None \<Rightarrow> Some out
     | Some c \<Rightarrow>
        (case patiteratornext pt st of
           None \<Rightarrow> None
         | Some st' \<Rightarrow> iterate_from pt st' (out @ [prefix (nodes pt c)])))"

declare iterate_from.simps [code]

definition pat_emitted :: "patricia_trie \<Rightarrow> netaddr list option" where
  "pat_emitted pt =
    (case patiteratorinit pt of None \<Rightarrow> None | Some st \<Rightarrow> iterate_from pt st [])"

subsection \<open>The shape of a trie in the store\<close>

text \<open>A binary tree of node addresses, and the relation saying that the nodes reachable
  from a pointer through the child pointers form that tree.\<close>

datatype ptree = Tip | Br nat ptree ptree

fun is_shape :: "(nat \<Rightarrow> pnode) \<Rightarrow> nat option \<Rightarrow> ptree \<Rightarrow> bool" where
  "is_shape ns None Tip = True"
| "is_shape ns (Some i) (Br j l r) =
     (i = j \<and> is_shape ns (child0 (ns i)) l \<and> is_shape ns (child1 (ns i)) r)"
| "is_shape ns None (Br j l r) = False"
| "is_shape ns (Some i) Tip = False"

text \<open>A node counts for the coverage when it is not glue and not the default route.\<close>

definition counted :: "pnode \<Rightarrow> bool" where
  "counted n = (\<not> glue n \<and> bitlen (prefix n) \<noteq> 0)"

fun tree_nodes :: "ptree \<Rightarrow> nat list" where
  "tree_nodes Tip = []"
| "tree_nodes (Br i l r) = i # tree_nodes l @ tree_nodes r"

text \<open>All the counting nodes of a tree, and those of them with no counting node above.\<close>

definition stored_nodes :: "(nat \<Rightarrow> pnode) \<Rightarrow> ptree \<Rightarrow> nat list" where
  "stored_nodes ns t = filter (\<lambda>i. counted (ns i)) (tree_nodes t)"

fun top_nodes :: "(nat \<Rightarrow> pnode) \<Rightarrow> ptree \<Rightarrow> nat list" where
  "top_nodes ns Tip = []"
| "top_nodes ns (Br i l r) = (if counted (ns i) then [i] else top_nodes ns l @ top_nodes ns r)"

text \<open>The sum of \<open>2 ^ (maxbitlen - bitlen)\<close> over a list of nodes, in 128 bits.\<close>

definition space_sum :: "(nat \<Rightarrow> pnode) \<Rightarrow> nat \<Rightarrow> nat list \<Rightarrow> 128 word" where
  "space_sum ns maxbits js = sum_list (map (\<lambda>i. 2 ^ (maxbits - bitlen (prefix (ns i)))) js)"

text \<open>The specification's coverage: the sum over every stored prefix but the default
  route.\<close>

definition claimed_coverage :: "patricia_trie \<Rightarrow> ptree \<Rightarrow> 128 word" where
  "claimed_coverage pt t = space_sum (nodes pt) (maxbitlen pt) (stored_nodes (nodes pt) t)"

text \<open>The prefixes of the nodes in a list are no longer than the trie allows.\<close>

definition fits :: "(nat \<Rightarrow> pnode) \<Rightarrow> nat \<Rightarrow> nat list \<Rightarrow> bool" where
  "fits ns maxbits js = list_all (\<lambda>i. bitlen (prefix (ns i)) \<le> maxbits) js"

text \<open>The number of stack slots the walk of \<^verbatim>\<open>patcoverage\<close> needs on a tree: one more
  while it is in the left subtree of a node with two children that it does not count.\<close>

fun stack_need :: "(nat \<Rightarrow> pnode) \<Rightarrow> ptree \<Rightarrow> nat" where
  "stack_need ns Tip = 0"
| "stack_need ns (Br i l r) =
     (if counted (ns i) then 0
      else if l = Tip then stack_need ns r
      else if r = Tip then stack_need ns l
      else max (Suc (stack_need ns l)) (stack_need ns r))"

text \<open>What the loop of \<^verbatim>\<open>patcoverage\<close> does when it is done with a subtree: it goes on with
  the node on top of the stack, or ends.\<close>

definition pop_continue :: "(nat \<Rightarrow> pnode) \<Rightarrow> nat \<Rightarrow> nat list \<Rightarrow> 128 word \<Rightarrow> 128 word option" where
  "pop_continue ns maxbits stk cov =
     (case stk of [] \<Rightarrow> Some cov | t # rest \<Rightarrow> coverage_loop ns maxbits (Some t) rest cov)"

subsection \<open>Tries built by the library's own operations\<close>

text \<open>An IPv4 prefix as \<^verbatim>\<open>stonaddr\<close> or \<^verbatim>\<open>makenaddr\<close> leaves it, a node with no payload,
  the prefix of a fresh glue node, and the memory before any page is allocated.\<close>

definition v4 :: "8 word \<Rightarrow> 8 word \<Rightarrow> 8 word \<Rightarrow> 8 word \<Rightarrow> nat \<Rightarrow> netaddr" where
  "v4 a b c d n =
    \<lparr>family = AF_INET, bitlen = n, bytes = [a, b, c, d, 0, 0, 0, 0, 0, 0, 0, 0, 0, 0, 0, 0]\<rparr>"

definition mknode :: "netaddr \<Rightarrow> nat option \<Rightarrow> bool \<Rightarrow> nat option \<Rightarrow> nat option \<Rightarrow> pnode" where
  "mknode p pa g l r = \<lparr>prefix = p, payload = 0, parent = pa, glue = g, child0 = l, child1 = r\<rparr>"

definition gluepfx :: "nat \<Rightarrow> netaddr" where
  "gluepfx n = \<lparr>family = AF_UNSPEC, bitlen = n, bytes = zero_bytes\<rparr>"

definition mem0 :: "nat \<Rightarrow> pnode" where
  "mem0 = (\<lambda>_. pnodeinit None)"

definition trie0 :: patricia_trie where
  "trie0 = patinit mem0 AF_INET"

text \<open>The trie after the insertion of 10.0.0.0/16, and then of 10.0.0.0/8.\<close>

definition trieA1 :: patricia_trie where
  "trieA1 =
    \<lparr>nodes = mem0(127 := mknode (v4 10 0 0 0 16) None False None None),
     head = Some 127, maxbitlen = 32, nprefs = 1, pages = 1, freenodes = rev [0..<127]\<rparr>"

definition trieA2 :: patricia_trie where
  "trieA2 =
    \<lparr>nodes = mem0(125 := mknode (gluepfx 8) None True (Some 126) (Some 127),
                  126 := mknode (v4 10 0 0 0 8) (Some 125) False None None,
                  127 := mknode (v4 10 0 0 0 16) (Some 125) False None None),
     head = Some 125, maxbitlen = 32, nprefs = 2, pages = 1, freenodes = rev [0..<125]\<rparr>"

text \<open>The trie after the insertion of 0.0.0.0/2, and then of 64.0.0.0/2.\<close>

definition trieB1 :: patricia_trie where
  "trieB1 =
    \<lparr>nodes = mem0(127 := mknode (v4 0 0 0 0 2) None False None None),
     head = Some 127, maxbitlen = 32, nprefs = 1, pages = 1, freenodes = rev [0..<127]\<rparr>"

definition trieB2 :: patricia_trie where
  "trieB2 =
    \<lparr>nodes = mem0(125 := mknode (gluepfx 1) None True (Some 127) (Some 126),
                  126 := mknode (v4 64 0 0 0 2) (Some 125) False None None,
                  127 := mknode (v4 0 0 0 0 2) (Some 125) False None None),
     head = Some 125, maxbitlen = 32, nprefs = 2, pages = 1, freenodes = rev [0..<125]\<rparr>"

text \<open>The trie after the insertion of 8.0.0.0/8, and then of 8.2.0.0/16 (the first steps
  of \<^verbatim>\<open>testpatcoverage\<close> without the default route), and its shape.\<close>

definition trieC1 :: patricia_trie where
  "trieC1 =
    \<lparr>nodes = mem0(127 := mknode (v4 8 0 0 0 8) None False None None),
     head = Some 127, maxbitlen = 32, nprefs = 1, pages = 1, freenodes = rev [0..<127]\<rparr>"

definition trieC2 :: patricia_trie where
  "trieC2 =
    \<lparr>nodes = mem0(126 := mknode (v4 8 2 0 0 16) (Some 127) False None None,
                  127 := mknode (v4 8 0 0 0 8) None False (Some 126) None),
     head = Some 127, maxbitlen = 32, nprefs = 2, pages = 1, freenodes = rev [0..<126]\<rparr>"

definition shapeC2 :: ptree where
  "shapeC2 = Br 127 (Br 126 Tip Tip) Tip"

section \<open>BGP messages: the AS path iterator (bgp.c)\<close>

text \<open>
  The status flags of a message (\<^verbatim>\<open>F_RD\<close>, \<^verbatim>\<open>F_ASPATH\<close>, ...) are a bit set in
  \<^verbatim>\<open>msg->flags\<close>; here they are a set of names.
\<close>

datatype msgflag = F_SH | F_RD | F_WR | F_PM | F_WITHDRN | F_ALLWITHDRN | F_PATTR | F_NLRI
  | F_ALLNLRI | F_ASPATH | F_REALASPATH | F_NHOP | F_COMMUNITY | F_ADDPATH | F_ASN32BIT
  | F_PRESOFFTAB

text \<open>\<^verbatim>\<open>as_pathent_t\<close>, the entry the iterator returns.\<close>

record as_pathent =
  ent_as_size :: nat
  ent_type :: nat
  ent_segno :: int
  ent_as :: "32 word"

text \<open>
  The part of \<^verbatim>\<open>ubgp_msg_s\<close> the AS path iterator works on. The packet is represented by
  its type and by the attributes as the lookup \<^verbatim>\<open>seekbgpattr\<close> finds them: the value
  bytes of \<^verbatim>\<open>AS_PATH\<close> and \<^verbatim>\<open>AS4_PATH\<close> (what \<^verbatim>\<open>getaspath\<close> delimits), the AS number
  \<^verbatim>\<open>getaggregatoras\<close> reads from \<^verbatim>\<open>AGGREGATOR\<close>, and whether \<^verbatim>\<open>AS4_AGGREGATOR\<close> is
  present. A pair of pointers into an attribute (\<^verbatim>\<open>asptr\<close>, \<^verbatim>\<open>asend\<close>) is the list of the
  bytes between them; \<^verbatim>\<open>ascount\<close> is an \<^verbatim>\<open>int16_t\<close>.
\<close>

record ubgp_msg =
  msgtype :: nat
  flags :: "msgflag set"
  err :: int
  attr_aspath :: "8 word list option"
  attr_as4path :: "8 word list option"
  attr_aggregator_as :: "32 word option"
  attr_as4aggregator :: bool
  asrest :: "8 word list"
  as4rest :: "8 word list"
  seglen :: nat
  segi :: nat
  ascount :: "16 word"
  asp :: as_pathent

definition BGP_UPDATE :: nat where "BGP_UPDATE = 2"
definition BGP_ENOERR :: int where "BGP_ENOERR = 0"
definition BGP_EINVOP :: int where "BGP_EINVOP = 2"
definition BGP_EBADATTR :: int where "BGP_EBADATTR = 8"
definition AS_SEGMENT_SET :: nat where "AS_SEGMENT_SET = 1"
definition AS_SEGMENT_SEQ :: nat where "AS_SEGMENT_SEQ = 2"
definition AS_TRANS :: "32 word" where "AS_TRANS = 23456"

text \<open>The macros \<^verbatim>\<open>CHECKTYPEANDFLAGS\<close> and \<^verbatim>\<open>CHECKFLAGS\<close> record \<^verbatim>\<open>BGP_EINVOP\<close>
  unless an error is already there; the caller returns when \<^verbatim>\<open>msg->err\<close> is set.\<close>

definition invop :: "ubgp_msg \<Rightarrow> ubgp_msg" where
  "invop msg = msg\<lparr>err := (if err msg \<noteq> BGP_ENOERR then err msg else BGP_EINVOP)\<rparr>"

definition checktypeandflags :: "ubgp_msg \<Rightarrow> nat \<Rightarrow> msgflag set \<Rightarrow> ubgp_msg" where
  "checktypeandflags msg ty fl =
    (let m1 = (if msgtype msg \<noteq> ty then invop msg else msg) in
     if \<not> fl \<subseteq> flags m1 then invop m1 else m1)"

definition checkflags :: "ubgp_msg \<Rightarrow> msgflag set \<Rightarrow> ubgp_msg" where
  "checkflags msg fl = (if \<not> fl \<subseteq> flags msg then invop msg else msg)"

text \<open>\<^verbatim>\<open>endpending\<close> closes the iteration that is open, if any. On a message open for
  reading each of the functions it calls clears its flags, unless an error is recorded.\<close>

definition endfield :: "ubgp_msg \<Rightarrow> msgflag set \<Rightarrow> ubgp_msg" where
  "endfield msg fl = (if err msg \<noteq> BGP_ENOERR then msg else msg\<lparr>flags := flags msg - fl\<rparr>)"

definition endaspath :: "ubgp_msg \<Rightarrow> int \<times> ubgp_msg" where
  "endaspath msg =
    (let m = checkflags msg {F_ASPATH} in
     if err m \<noteq> BGP_ENOERR then (err m, m)
     else (BGP_ENOERR, m\<lparr>flags := flags m - {F_ASPATH, F_REALASPATH}\<rparr>))"

definition endpending :: "ubgp_msg \<Rightarrow> ubgp_msg" where
  "endpending msg =
    (if flags msg \<inter> {F_PM, F_WITHDRN, F_PATTR, F_NLRI, F_ASPATH, F_NHOP, F_COMMUNITY} = {} then msg
     else if F_PM \<in> flags msg then endfield msg {F_PM}
     else if F_WITHDRN \<in> flags msg then endfield msg {F_WITHDRN, F_ALLWITHDRN}
     else if F_PATTR \<in> flags msg then endfield msg {F_PATTR}
     else if F_NLRI \<in> flags msg then endfield msg {F_NLRI, F_ALLNLRI}
     else if F_ASPATH \<in> flags msg then snd (endaspath msg)
     else if F_COMMUNITY \<in> flags msg then endfield msg {F_COMMUNITY}
     else endfield msg {F_NHOP})"

text \<open>
  The counting loops of \<^verbatim>\<open>startrealaspath\<close>, for ASes of \<open>sz\<close> bytes: each segment is a
  type byte, a count byte and that many ASes; a set counts 1, whatever its count byte.
  \<open>None\<close> is the case \<^verbatim>\<open>ptr > end\<close>, a segment running past the end of the attribute.
\<close>

function count_segments :: "nat \<Rightarrow> 8 word list \<Rightarrow> nat \<Rightarrow> nat option" where
  "count_segments sz [] acc = Some acc"
| "count_segments sz [t] acc = None"
| "count_segments sz (t # c # rest) acc =
     (if length rest < unat c * sz then None
      else count_segments sz (drop (unat c * sz) rest)
             (acc + (if unat t = AS_SEGMENT_SET then 1 else unat c)))"
  by pat_completeness auto
termination
  by (relation "measure (\<lambda>(sz, bs, acc). length bs)") auto

text \<open>
  \<^verbatim>\<open>startrealaspath\<close>: the result is the error code returned and the message. Without
  \<^verbatim>\<open>AS_PATH\<close> the iterator is empty. With 32 bit ASes, or with \<^verbatim>\<open>AGGREGATOR\<close> and
  \<^verbatim>\<open>AS4_AGGREGATOR\<close> both there and an aggregator AS other than \<^verbatim>\<open>AS_TRANS\<close>, or without
  \<^verbatim>\<open>AS4_PATH\<close>, or with fewer ASes in \<^verbatim>\<open>AS_PATH\<close> than in \<^verbatim>\<open>AS4_PATH\<close>, the iterator is
  the one of \<^verbatim>\<open>AS_PATH\<close>. Otherwise \<^verbatim>\<open>ascount\<close> is the number of leading ASes to take from
  \<^verbatim>\<open>AS_PATH\<close> before the switch to \<^verbatim>\<open>AS4_PATH\<close>.
\<close>

definition startrealaspath :: "ubgp_msg \<Rightarrow> int \<times> ubgp_msg" where
  "startrealaspath msg =
    (let m0 = checktypeandflags msg BGP_UPDATE {F_RD} in
     if err m0 \<noteq> BGP_ENOERR then (err m0, m0)
     else
      (let m1 = endpending m0;
           sz = (if F_ASN32BIT \<in> flags m1 then 4 else 2);
           m2 = m1\<lparr>flags := insert F_ASPATH (flags m1), seglen := 0, segi := 0, ascount := - 1,
                    asp := (asp m1)\<lparr>ent_as_size := sz, ent_segno := - 1\<rparr>\<rparr>
       in case attr_aspath m2 of
            None \<Rightarrow> (BGP_ENOERR, m2\<lparr>asrest := []\<rparr>)
          | Some body \<Rightarrow>
             (let m3 = m2\<lparr>asrest := body\<rparr> in
              if sz = 4 then (BGP_ENOERR, m3)
              else if attr_aggregator_as m3 \<noteq> None \<and> attr_as4aggregator m3
                      \<and> attr_aggregator_as m3 \<noteq> Some AS_TRANS then (BGP_ENOERR, m3)
              else
               (case attr_as4path m3 of
                  None \<Rightarrow> (BGP_ENOERR, m3)
                | Some body4 \<Rightarrow>
                   (case count_segments 2 body 0 of
                      None \<Rightarrow> (BGP_EBADATTR, m3\<lparr>err := BGP_EBADATTR\<rparr>)
                    | Some cnt \<Rightarrow>
                       (case count_segments 4 body4 0 of
                          None \<Rightarrow> (BGP_EBADATTR, m3\<lparr>err := BGP_EBADATTR\<rparr>)
                        | Some cnt4 \<Rightarrow>
                           if cnt < cnt4 then (BGP_ENOERR, m3)
                           else (BGP_ENOERR,
                                 m3\<lparr>as4rest := body4, ascount := of_nat (cnt - cnt4),
                                    flags := insert F_REALASPATH (flags m3)\<rparr>)))))))"

text \<open>The first loop of \<^verbatim>\<open>nextaspath\<close>: while the current segment is exhausted, read the
  next segment header. The flag returned is false when the function returns \<^verbatim>\<open>NULL\<close>: at
  the end of the attribute, or on a truncated header (\<^verbatim>\<open>BGP_EBADATTR\<close>).\<close>

function segment_header :: "ubgp_msg \<Rightarrow> bool \<times> ubgp_msg" where
  "segment_header msg =
    (if segi msg = seglen msg then
       (case asrest msg of
          [] \<Rightarrow> (False, msg)
        | [t] \<Rightarrow> (False, msg\<lparr>err := BGP_EBADATTR\<rparr>)
        | t # c # rest \<Rightarrow>
           segment_header
             (msg\<lparr>asp := (asp msg)\<lparr>ent_type := unat t, ent_segno := ent_segno (asp msg) + 1\<rparr>,
                  seglen := unat c, segi := 0, asrest := rest\<rparr>))
     else (True, msg))"
  by pat_completeness auto
termination
  by (relation "measure (\<lambda>msg. length (asrest msg))") auto

text \<open>An AS number in network byte order, of two or four bytes.\<close>

definition be16 :: "8 word list \<Rightarrow> 32 word" where
  "be16 bs = push_bit 8 (ucast (bs ! 0)) OR ucast (bs ! 1)"

definition be32 :: "8 word list \<Rightarrow> 32 word" where
  "be32 bs = push_bit 24 (ucast (bs ! 0)) OR push_bit 16 (ucast (bs ! 1))
             OR push_bit 8 (ucast (bs ! 2)) OR ucast (bs ! 3)"

text \<open>
  \<^verbatim>\<open>nextaspath\<close>: the entry returned (\<open>None\<close> for \<^verbatim>\<open>NULL\<close>) and the message. The source
  reads the AS without checking that it lies within the attribute: a read past the end
  of the attribute is the outcome \<open>None\<close>. While \<^verbatim>\<open>ascount\<close> is not zero it is decremented
  for every AS of a sequence and for the first AS of a set, and the entry is returned;
  when it is zero the entry just read is dropped, the iterator is moved to \<^verbatim>\<open>AS4_PATH\<close>
  and the function calls itself.
\<close>

function nextaspath :: "ubgp_msg \<Rightarrow> (as_pathent option \<times> ubgp_msg) option" where
  "nextaspath msg =
    (let m0 = checkflags msg {F_ASPATH} in
     if err m0 \<noteq> BGP_ENOERR then Some (None, m0)
     else
      (case segment_header m0 of
         (False, m1) \<Rightarrow> Some (None, m1)
       | (True, m1) \<Rightarrow>
          (let sz = ent_as_size (asp m1) in
           if length (asrest m1) < sz then None
           else
            (let a = (if sz = 2 then be16 (asrest m1) else be32 (asrest m1));
                 m2 = m1\<lparr>asp := (asp m1)\<lparr>ent_as := a\<rparr>, asrest := drop sz (asrest m1),
                          segi := segi m1 + 1\<rparr>
             in if ascount m2 \<noteq> 0 then
                  Some (Some (asp m2),
                        m2\<lparr>ascount := ascount m2
                               - (if ent_type (asp m2) \<noteq> AS_SEGMENT_SET \<or> segi m2 = 1 then 1 else 0)\<rparr>)
                else
                  nextaspath
                    (m2\<lparr>asrest := as4rest m2, asp := (asp m2)\<lparr>ent_as_size := 4\<rparr>, seglen := 0,
                        segi := 0, ascount := - 1, flags := flags m2 - {F_REALASPATH}\<rparr>)))))"
  by pat_completeness auto
termination
proof -
  have hdr: "ascount m' = ascount m" if "segment_header m = (b, m')" for m b m'
    using that
  proof (induction m arbitrary: b m' rule: segment_header.induct)
    case (1 msg)
    show ?case
    proof (cases "segi msg = seglen msg")
      case False
      with "1.prems" show ?thesis by (simp add: segment_header.simps)
    next
      case True
      show ?thesis
      proof (cases "asrest msg")
        case Nil
        with True "1.prems" show ?thesis by (simp add: segment_header.simps)
      next
        case (Cons t r)
        show ?thesis
        proof (cases r)
          case Nil
          with True Cons "1.prems" show ?thesis by (auto simp add: segment_header.simps)
        next
          case (Cons c rest)
          with True \<open>asrest msg = t # r\<close> "1.prems" "1.IH"[of t r c rest b m'] show ?thesis
            by (simp add: segment_header.simps)
        qed
      qed
    qed
  qed
  show ?thesis
  proof (relation "measure (\<lambda>msg. if ascount msg = 0 then 1 else 0)", goal_cases)
    case 1
    then show ?case by simp
  next
    case 2
    then show ?case
      by (auto simp del: segment_header.simps simp add: checkflags_def invop_def
          dest!: hdr [OF sym] split: if_splits)
  qed
qed


declare segment_header.simps [simp del]
declare nextaspath.simps [simp del]

section \<open>Filter virtual machine (filterpacket.c, filterintrin.h, filterintrin.c)\<close>

text \<open>
  The fields of \<^verbatim>\<open>struct filter_vm\<close> that the interpreter loop, the heap and the trie
  instructions use. A stack cell is a union; the stack is represented by the \<^verbatim>\<open>value\<close>
  member of its cells, the top first. The heap is represented by its marks and size and
  by whether it is allocated. The table \<^verbatim>\<open>funcs\<close> of function pointers is kept outside
  of the record (see \<open>vm_env\<close>).
\<close>

record filter_vm =
  bgp :: ubgp_msg
  curtrie :: nat
  curtrie6 :: nat
  cells :: "int list"
  stacksiz :: nat
  tries :: "patricia_trie list"
  code :: "16 word list"
  maxcode :: nat
  pc :: nat
  curblk :: "16 word"
  access_mask :: nat
  heap_alloced :: bool
  highwater :: "32 word"
  dynmarker :: "32 word"
  heapsiz :: "32 word"
  settle_func :: "(ubgp_msg \<Rightarrow> int \<times> ubgp_msg) option"
  error :: int

text \<open>The error codes, and the opcodes in the order of their enumeration.\<close>

definition VM_OUT_OF_MEMORY :: int where "VM_OUT_OF_MEMORY = - 1"
definition VM_STACK_OVERFLOW :: int where "VM_STACK_OVERFLOW = - 2"
definition VM_STACK_UNDERFLOW :: int where "VM_STACK_UNDERFLOW = - 3"
definition VM_FUNC_UNDEFINED :: int where "VM_FUNC_UNDEFINED = - 4"
definition VM_TRIE_MISMATCH :: int where "VM_TRIE_MISMATCH = - 7"
definition VM_TRIE_UNDEFINED :: int where "VM_TRIE_UNDEFINED = - 8"
definition VM_BAD_PACKET :: int where "VM_BAD_PACKET = - 10"
definition VM_ILLEGAL_OPCODE :: int where "VM_ILLEGAL_OPCODE = - 11"
definition VM_DANGLING_BLK :: int where "VM_DANGLING_BLK = - 12"
definition VM_SPURIOUS_ENDBLK :: int where "VM_SPURIOUS_ENDBLK = - 13"


definition FOPC_NOP :: nat where "FOPC_NOP = 0"
definition FOPC_BLK :: nat where "FOPC_BLK = 1"
definition FOPC_ENDBLK :: nat where "FOPC_ENDBLK = 2"
definition FOPC_LOAD :: nat where "FOPC_LOAD = 3"
definition FOPC_LOADK :: nat where "FOPC_LOADK = 4"
definition FOPC_UNPACK :: nat where "FOPC_UNPACK = 5"
definition FOPC_EXARG :: nat where "FOPC_EXARG = 6"
definition FOPC_STORE :: nat where "FOPC_STORE = 7"
definition FOPC_DISCARD :: nat where "FOPC_DISCARD = 8"
definition FOPC_NOT :: nat where "FOPC_NOT = 9"
definition FOPC_CPASS :: nat where "FOPC_CPASS = 10"
definition FOPC_CFAIL :: nat where "FOPC_CFAIL = 11"
definition FOPC_SETTLE :: nat where "FOPC_SETTLE = 12"
definition FOPC_HASATTR :: nat where "FOPC_HASATTR = 13"
definition FOPC_EXACT :: nat where "FOPC_EXACT = 14"
definition FOPC_SUBNET :: nat where "FOPC_SUBNET = 15"
definition FOPC_SUPERNET :: nat where "FOPC_SUPERNET = 16"
definition FOPC_RELATED :: nat where "FOPC_RELATED = 17"
definition FOPC_PFXCONTAINS :: nat where "FOPC_PFXCONTAINS = 18"
definition FOPC_ADDRCONTAINS :: nat where "FOPC_ADDRCONTAINS = 19"
definition FOPC_ASCONTAINS :: nat where "FOPC_ASCONTAINS = 20"
definition FOPC_ASPMATCH :: nat where "FOPC_ASPMATCH = 21"
definition FOPC_ASPSTARTS :: nat where "FOPC_ASPSTARTS = 22"
definition FOPC_ASPENDS :: nat where "FOPC_ASPENDS = 23"
definition FOPC_ASPEXACT :: nat where "FOPC_ASPEXACT = 24"
definition FOPC_COMMEXACT :: nat where "FOPC_COMMEXACT = 25"
definition FOPC_CALL :: nat where "FOPC_CALL = 26"
definition FOPC_SETTRIE :: nat where "FOPC_SETTRIE = 27"
definition FOPC_SETTRIE6 :: nat where "FOPC_SETTRIE6 = 28"
definition FOPC_CLRTRIE :: nat where "FOPC_CLRTRIE = 29"
definition FOPC_CLRTRIE6 :: nat where "FOPC_CLRTRIE6 = 30"
definition FOPC_PFXCMP :: nat where "FOPC_PFXCMP = 31"
definition FOPC_ADDRCMP :: nat where "FOPC_ADDRCMP = 32"
definition FOPC_ASCMP :: nat where "FOPC_ASCMP = 33"

definition VM_FUNCS_COUNT :: nat where "VM_FUNCS_COUNT = 25"
definition VM_TMPTRIE :: nat where "VM_TMPTRIE = 0"
definition VM_TMPTRIE6 :: nat where "VM_TMPTRIE6 = 1"

text \<open>
  What the machine and the build decide: whether a request for memory succeeds,
  \<^verbatim>\<open>sizeof(max_align_t)\<close>, the image of a pointer over a prefix (see \<open>putfreenode\<close>), and
  whether \<^verbatim>\<open>assert\<close> is checked, which it is unless the library is compiled with
  \<^verbatim>\<open>NDEBUG\<close>. A failed assertion ends the process: the function returns nothing.
  The environment of a run adds the table of functions that \<^verbatim>\<open>CALL\<close> reaches and the
  instructions that read the packet or the constants, which are not interpreted here:
  they are a function from the opcode, the argument and the state to the outcome.
\<close>

record platform =
  mem_ok :: bool
  max_align :: "64 word"
  ptr_img :: "nat option \<Rightarrow> netaddr \<Rightarrow> netaddr"
  asserts :: bool

record vm_env =
  env_pf :: platform
  env_funcs :: "nat \<Rightarrow> (platform \<Rightarrow> filter_vm \<Rightarrow> (filter_vm + filter_vm) option) option"
  env_intrin :: "nat \<Rightarrow> nat \<Rightarrow> filter_vm \<Rightarrow> (filter_vm + filter_vm) option"

text \<open>\<^verbatim>\<open>vm_abort\<close> records the error and jumps out of the loop: an aborted state is
  \<open>Inl\<close>, a state that goes on is \<open>Inr\<close>.\<close>

definition vm_abort :: "filter_vm \<Rightarrow> int \<Rightarrow> filter_vm + filter_vm" where
  "vm_abort vm e = Inl (vm\<lparr>error := e\<rparr>)"

definition vm_makeop :: "nat \<Rightarrow> nat \<Rightarrow> 16 word" where
  "vm_makeop opcode arg = (push_bit 8 (of_nat arg) AND 0xff00) OR (of_nat opcode AND 0xff)"

definition vm_getopcode :: "16 word \<Rightarrow> nat" where
  "vm_getopcode c = unat (c AND 0xff)"

definition vm_getarg :: "16 word \<Rightarrow> nat" where
  "vm_getarg c = unat (drop_bit 8 c)"

definition vm_extendarg :: "nat \<Rightarrow> nat \<Rightarrow> nat" where
  "vm_extendarg arg exarg =
    unat ((push_bit 8 (of_nat exarg) OR of_nat arg) AND (0x7fffffff :: 32 word))"

definition vm_growstack :: "platform \<Rightarrow> filter_vm \<Rightarrow> filter_vm + filter_vm" where
  "vm_growstack pf vm =
    (if mem_ok pf then Inr (vm\<lparr>stacksiz := (stacksiz vm + 128) mod 65536\<rparr>)
     else vm_abort vm VM_STACK_OVERFLOW)"

definition vm_pushvalue :: "platform \<Rightarrow> filter_vm \<Rightarrow> int \<Rightarrow> filter_vm + filter_vm" where
  "vm_pushvalue pf vm v =
    (case (if length (cells vm) = stacksiz vm then vm_growstack pf vm else Inr vm) of
       Inl a \<Rightarrow> Inl a
     | Inr vm' \<Rightarrow> Inr (vm'\<lparr>cells := v # cells vm'\<rparr>))"

definition vm_exec_settle :: "filter_vm \<Rightarrow> filter_vm" where
  "vm_exec_settle vm =
    (case settle_func vm of
       None \<Rightarrow> vm
     | Some f \<Rightarrow> vm\<lparr>bgp := snd (f (bgp vm)), settle_func := None, access_mask := 0\<rparr>)"

definition vm_exec_settrie :: "filter_vm \<Rightarrow> nat \<Rightarrow> filter_vm + filter_vm" where
  "vm_exec_settrie vm t =
    (if t \<ge> length (tries vm) then vm_abort vm VM_TRIE_UNDEFINED
     else if maxbitlen (tries vm ! t) \<noteq> 32 then vm_abort (vm\<lparr>curtrie := t\<rparr>) VM_TRIE_MISMATCH
     else Inr (vm\<lparr>curtrie := t\<rparr>))"

definition vm_exec_settrie6 :: "filter_vm \<Rightarrow> nat \<Rightarrow> filter_vm + filter_vm" where
  "vm_exec_settrie6 vm t =
    (if t \<ge> length (tries vm) then vm_abort vm VM_TRIE_UNDEFINED
     else if maxbitlen (tries vm ! t) \<noteq> 128 then vm_abort (vm\<lparr>curtrie6 := t\<rparr>) VM_TRIE_MISMATCH
     else Inr (vm\<lparr>curtrie6 := t\<rparr>))"

definition vm_exec_clrtrie :: "platform \<Rightarrow> filter_vm \<Rightarrow> filter_vm" where
  "vm_exec_clrtrie pf vm =
    vm\<lparr>tries := (tries vm)[curtrie vm := patclear (ptr_img pf) (tries vm ! curtrie vm)]\<rparr>"

definition vm_exec_clrtrie6 :: "platform \<Rightarrow> filter_vm \<Rightarrow> filter_vm" where
  "vm_exec_clrtrie6 pf vm =
    vm\<lparr>tries := (tries vm)[curtrie6 vm := patclear (ptr_img pf) (tries vm ! curtrie6 vm)]\<rparr>"

text \<open>\<^verbatim>\<open>vm_exec_break\<close> moves \<^verbatim>\<open>pc\<close> to the \<^verbatim>\<open>ENDBLK\<close> that closes the current block; it
  compares whole instruction words with the opcodes.\<close>

function break_loop :: "16 word list \<Rightarrow> nat \<Rightarrow> nat \<Rightarrow> nat" where
  "break_loop cd p nblk =
    (if p < length cd then
       (let n1 = (if cd ! p = of_nat FOPC_ENDBLK then nblk - 1 else nblk);
            n2 = (if cd ! p = of_nat FOPC_BLK then n1 + 1 else n1)
        in if n2 = 0 then p else break_loop cd (p + 1) n2)
     else p)"
  by pat_completeness auto
termination
  by (relation "measure (\<lambda>(cd, p, nblk). length cd - p)") auto

declare break_loop.simps [simp del]

definition vm_exec_break :: "filter_vm \<Rightarrow> filter_vm" where
  "vm_exec_break vm = vm\<lparr>pc := break_loop (code vm) (pc vm) 1\<rparr>"

text \<open>
  One turn of the loop of \<^verbatim>\<open>bgp_filter\<close> (the portable \<^verbatim>\<open>switch\<close>; the computed goto
  with its predictions is an optimisation of it): fetch, advance \<^verbatim>\<open>pc\<close>, execute. The
  result is the state and the extended argument to go on with, or the state at
  \<^verbatim>\<open>goto done\<close>, or the state at \<^verbatim>\<open>vm_abort\<close>; \<open>None\<close> is a called function that does not
  return.
\<close>

datatype step_result = Next filter_vm nat | Done filter_vm | Abort filter_vm

definition lift_step :: "nat \<Rightarrow> (filter_vm + filter_vm) \<Rightarrow> step_result" where
  "lift_step exarg r = (case r of Inl a \<Rightarrow> Abort a | Inr vm \<Rightarrow> Next vm exarg)"

definition extended_ops :: "nat list" where
  "extended_ops = [FOPC_LOADK, FOPC_PFXCONTAINS, FOPC_ADDRCONTAINS, FOPC_ASCONTAINS,
     FOPC_ADDRCMP, FOPC_PFXCMP, FOPC_ASCMP]"

definition plain_ops :: "nat list" where
  "plain_ops = [FOPC_UNPACK, FOPC_STORE, FOPC_DISCARD, FOPC_ASPMATCH, FOPC_ASPSTARTS,
     FOPC_ASPENDS, FOPC_ASPEXACT, FOPC_COMMEXACT, FOPC_HASATTR, FOPC_EXACT, FOPC_SUBNET,
     FOPC_SUPERNET, FOPC_RELATED]"

definition exec_step :: "vm_env \<Rightarrow> filter_vm \<Rightarrow> nat \<Rightarrow> step_result option" where
  "exec_step env vm0 exarg =
    (let ip = code vm0 ! pc vm0;
         vm = vm0\<lparr>pc := pc vm0 + 1\<rparr>;
         opc = vm_getopcode ip
     in if opc = FOPC_NOP then Some (Next vm exarg)
        else if opc = FOPC_BLK then Some (Next (vm\<lparr>curblk := curblk vm + 1\<rparr>) exarg)
        else if opc = FOPC_ENDBLK then
          (if curblk vm = 0 then Some (Abort (vm\<lparr>error := VM_SPURIOUS_ENDBLK\<rparr>))
           else Some (Next (vm\<lparr>curblk := curblk vm - 1\<rparr>) exarg))
        else if opc = FOPC_LOAD then
          Some (lift_step 0 (vm_pushvalue (env_pf env) vm (int (vm_extendarg (vm_getarg ip) exarg))))
        else if opc = FOPC_EXARG then
          Some (Next vm (unat ((push_bit 8 (of_nat exarg) OR of_nat (vm_getarg ip)) :: 32 word)))
        else if opc = FOPC_NOT then
          (case cells vm of
             [] \<Rightarrow> Some (Abort (vm\<lparr>error := VM_STACK_UNDERFLOW\<rparr>))
           | v # rest \<Rightarrow> Some (Next (vm\<lparr>cells := (if v = 0 then 1 else 0) # rest\<rparr>) exarg))
        else if opc = FOPC_CPASS then
          (case cells vm of
             [] \<Rightarrow> Some (Abort (vm\<lparr>error := VM_STACK_UNDERFLOW\<rparr>))
           | v # rest \<Rightarrow>
              if v \<noteq> 0 then
                (if curblk vm = 0 then Some (Done vm) else Some (Next (vm_exec_break vm) exarg))
              else Some (Next (vm\<lparr>cells := rest\<rparr>) exarg))
        else if opc = FOPC_CFAIL then
          (case cells vm of
             [] \<Rightarrow> Some (Abort (vm\<lparr>error := VM_STACK_UNDERFLOW\<rparr>))
           | v # rest \<Rightarrow>
              if v \<noteq> 0 then
                (let vm1 = vm\<lparr>cells := 0 # rest\<rparr> in
                 if curblk vm1 = 0 then Some (Done vm1) else Some (Next (vm_exec_break vm1) exarg))
              else Some (Next (vm\<lparr>cells := rest\<rparr>) exarg))
        else if opc = FOPC_CALL then
          (let arg = vm_extendarg (vm_getarg ip) exarg in
           if arg \<ge> VM_FUNCS_COUNT then Some (Abort (vm\<lparr>error := VM_FUNC_UNDEFINED\<rparr>))
           else case env_funcs env arg of
                  None \<Rightarrow> Some (Abort (vm\<lparr>error := VM_FUNC_UNDEFINED\<rparr>))
                | Some f \<Rightarrow> map_option (lift_step 0) (f (env_pf env) vm))
        else if opc = FOPC_SETTLE then Some (Next (vm_exec_settle vm) exarg)
        else if opc = FOPC_SETTRIE then
          Some (lift_step 0 (vm_exec_settrie vm (vm_extendarg (vm_getarg ip) exarg)))
        else if opc = FOPC_SETTRIE6 then
          Some (lift_step 0 (vm_exec_settrie6 vm (vm_extendarg (vm_getarg ip) exarg)))
        else if opc = FOPC_CLRTRIE then Some (Next (vm_exec_clrtrie (env_pf env) vm) exarg)
        else if opc = FOPC_CLRTRIE6 then Some (Next (vm_exec_clrtrie6 (env_pf env) vm) exarg)
        else if opc \<in> set extended_ops then
          map_option (lift_step 0) (env_intrin env opc (vm_extendarg (vm_getarg ip) exarg) vm)
        else if opc \<in> set plain_ops then
          map_option (lift_step exarg) (env_intrin env opc (vm_getarg ip) vm)
        else Some (Abort (vm\<lparr>error := VM_ILLEGAL_OPCODE\<rparr>)))"

text \<open>The loop \<^verbatim>\<open>while (vm->pc < vm->codesiz)\<close>.\<close>

partial_function (option) exec_loop :: "vm_env \<Rightarrow> filter_vm \<Rightarrow> nat \<Rightarrow> step_result option" where
  "exec_loop env vm exarg =
    (if pc vm < length (code vm) then
       (case exec_step env vm exarg of
          None \<Rightarrow> None
        | Some (Next vm' exarg') \<Rightarrow> exec_loop env vm' exarg'
        | Some (Done vm') \<Rightarrow> Some (Done vm')
        | Some (Abort vm') \<Rightarrow> Some (Abort vm'))
     else Some (Done vm))"

declare exec_loop.simps [code]

text \<open>
  The two ways out of \<^verbatim>\<open>bgp_filter\<close>. After \<^verbatim>\<open>vm_abort\<close> the handler settles the packet
  iterator and returns \<^verbatim>\<open>vm->error\<close>. At the label \<^verbatim>\<open>done\<close> the iterator is settled, an
  open block is the error \<^verbatim>\<open>VM_DANGLING_BLK\<close>, and the result is whether the value
  popped is not zero.
\<close>

definition filter_abort :: "filter_vm \<Rightarrow> int \<times> filter_vm" where
  "filter_abort vm = (let vm' = vm_exec_settle vm in (error vm', vm'))"

definition filter_done :: "filter_vm \<Rightarrow> int \<times> filter_vm" where
  "filter_done vm =
    (let vm1 = vm_exec_settle vm in
     if curblk vm1 > 0 then filter_abort (vm1\<lparr>error := VM_DANGLING_BLK\<rparr>)
     else case cells vm1 of
            [] \<Rightarrow> filter_abort (vm1\<lparr>error := VM_STACK_UNDERFLOW\<rparr>)
          | v # rest \<Rightarrow> ((if v \<noteq> 0 then 1 else 0), vm1\<lparr>cells := rest\<rparr>))"

text \<open>The start of \<^verbatim>\<open>bgp_filter\<close>: the state is reset, the two temporary tries are
  selected and cleared. Then the loop runs.\<close>

definition filter_start :: "vm_env \<Rightarrow> ubgp_msg \<Rightarrow> filter_vm \<Rightarrow> filter_vm + filter_vm" where
  "filter_start env msg vm =
    (let vm0 = vm\<lparr>bgp := msg, pc := 0, curblk := 0, cells := [], dynmarker := 0, error := 0\<rparr> in
     case vm_exec_settrie vm0 VM_TMPTRIE of
       Inl a \<Rightarrow> Inl a
     | Inr vm1 \<Rightarrow>
        (case vm_exec_settrie6 vm1 VM_TMPTRIE6 of
           Inl a \<Rightarrow> Inl a
         | Inr vm2 \<Rightarrow> Inr (vm_exec_clrtrie6 (env_pf env) (vm_exec_clrtrie (env_pf env) vm2))))"

definition bgp_filter :: "vm_env \<Rightarrow> ubgp_msg \<Rightarrow> filter_vm \<Rightarrow> (int \<times> filter_vm) option" where
  "bgp_filter env msg vm =
    (case filter_start env msg vm of
       Inl a \<Rightarrow> Some (filter_abort a)
     | Inr vm1 \<Rightarrow>
        (case exec_loop env vm1 0 of
           None \<Rightarrow> None
         | Some (Next vm2 x) \<Rightarrow> None
         | Some (Abort vm2) \<Rightarrow> Some (filter_abort vm2)
         | Some (Done vm2) \<Rightarrow> Some (filter_done vm2)))"


text \<open>\<^verbatim>\<open>filter_init\<close> (the fields represented here) and \<^verbatim>\<open>vm_emit\<close>, which grows the
  code segment by 128 instructions when it is full.\<close>

definition filter_init :: "(nat \<Rightarrow> pnode) \<Rightarrow> filter_vm \<Rightarrow> filter_vm" where
  "filter_init mem vm =
    vm\<lparr>curtrie := 0, curtrie6 := 0, cells := [], stacksiz := 256,
       tries := [patinit mem AF_INET, patinit mem AF_INET6], code := [], maxcode := 0, pc := 0,
       curblk := 0, access_mask := 0, heap_alloced := False, highwater := 0, dynmarker := 0,
       heapsiz := 0, settle_func := None, error := 0\<rparr>"

definition vm_emit :: "platform \<Rightarrow> filter_vm \<Rightarrow> 16 word \<Rightarrow> filter_vm option" where
  "vm_emit pf vm opcode =
    (if length (code vm) = maxcode vm then
       (if mem_ok pf
        then Some (vm\<lparr>maxcode := (maxcode vm + 128) mod 65536, code := code vm @ [opcode]\<rparr>)
        else None)
     else Some (vm\<lparr>code := code vm @ [opcode]\<rparr>))"

subsection \<open>The heap of the virtual machine\<close>

text \<open>
  Sizes are \<^verbatim>\<open>size_t\<close> (64 bits), the marks \<^verbatim>\<open>highwater\<close>, \<^verbatim>\<open>dynmarker\<close> and \<^verbatim>\<open>heapsiz\<close> are
  \<^verbatim>\<open>uint\<close> (32 bits), an address is an \<^verbatim>\<open>intptr_t\<close> (64 bits), \<^verbatim>\<open>VM_BAD_HEAP_PTR\<close> being -1.
  \<^verbatim>\<open>vm_heap_ensure\<close> returns \<^verbatim>\<open>vm->heap\<close> when there is room, which is \<^verbatim>\<open>NULL\<close> as long as
  nothing was allocated, and grows the heap otherwise.

  \<^verbatim>\<open>vm_heap_alloc\<close> and \<^verbatim>\<open>vm_heap_return\<close> contain assertions, so their result is an option:
  \<open>None\<close> is the process ended by a failed assertion. In \<^verbatim>\<open>vm_heap_alloc\<close> the case
  \<^verbatim>\<open>VM_HEAP_PERM\<close> with \<^verbatim>\<open>dynmarker > 0\<close>, and the case of an unknown zone, are
  \<^verbatim>\<open>assert(false)\<close> followed by \<^verbatim>\<open>return VM_BAD_HEAP_PTR\<close>: the return is reached only when
  assertions are compiled out. \<^verbatim>\<open>vm_heap_return\<close> asserts \<^verbatim>\<open>vm->dynmarker >= size\<close>.
\<close>

definition VM_HEAP_PERM :: int where "VM_HEAP_PERM = 0"
definition VM_HEAP_TEMP :: int where "VM_HEAP_TEMP = 1"
definition VM_BAD_HEAP_PTR :: "64 word" where "VM_BAD_HEAP_PTR = - 1"

definition align_size :: "64 word \<Rightarrow> 64 word \<Rightarrow> 64 word" where
  "align_size al sz = (let s = sz + (al - 1) in s - (s AND (al - 1)))"

definition vm_heap_ensure :: "platform \<Rightarrow> filter_vm \<Rightarrow> 64 word \<Rightarrow> bool \<times> filter_vm" where
  "vm_heap_ensure pf vm aligned_size =
    (let used = (ucast (highwater vm) + ucast (dynmarker vm) :: 64 word) in
     if ucast (heapsiz vm) - used \<ge> aligned_size then (heap_alloced vm, vm)
     else if mem_ok pf
       then (True, vm\<lparr>heap_alloced := True, heapsiz := ucast (aligned_size + used + 256)\<rparr>)
       else (False, vm))"

definition vm_heap_alloc :: "platform \<Rightarrow> filter_vm \<Rightarrow> 64 word \<Rightarrow> int \<Rightarrow> (64 word \<times> filter_vm) option" where
  "vm_heap_alloc pf vm sz0 zone =
    (let sz = align_size (max_align pf) sz0 in
     case vm_heap_ensure pf vm sz of
       (False, vm1) \<Rightarrow> Some (VM_BAD_HEAP_PTR, vm1)
     | (True, vm1) \<Rightarrow>
        if zone = VM_HEAP_PERM then
          (if dynmarker vm1 > 0 then
             (if asserts pf then None else Some (VM_BAD_HEAP_PTR, vm1))
           else Some (ucast (highwater vm1), vm1\<lparr>highwater := highwater vm1 + ucast sz\<rparr>))
        else if zone = VM_HEAP_TEMP then
          Some (ucast (highwater vm1) + ucast (dynmarker vm1),
                vm1\<lparr>dynmarker := dynmarker vm1 + ucast sz\<rparr>)
        else if asserts pf then None
        else Some (VM_BAD_HEAP_PTR, vm1))"

definition vm_heap_grow :: "platform \<Rightarrow> filter_vm \<Rightarrow> 64 word \<Rightarrow> 64 word \<Rightarrow> 64 word \<times> filter_vm" where
  "vm_heap_grow pf vm addr0 newsize0 =
    (let newsize = align_size (max_align pf) newsize0;
         addr = (if addr0 = 0 then ucast (highwater vm) else addr0);
         oldsize = (ucast (highwater vm + dynmarker vm) :: 64 word) - addr
     in if newsize < oldsize then (addr, vm)
        else
         (let amount = newsize - oldsize in
          case vm_heap_ensure pf vm amount of
            (False, vm1) \<Rightarrow> (VM_BAD_HEAP_PTR, vm1)
          | (True, vm1) \<Rightarrow> (addr, vm1\<lparr>dynmarker := dynmarker vm1 + ucast amount\<rparr>)))"

definition vm_heap_return :: "platform \<Rightarrow> filter_vm \<Rightarrow> 64 word \<Rightarrow> filter_vm option" where
  "vm_heap_return pf vm sz0 =
    (let sz = align_size (max_align pf) sz0 in
     if asserts pf \<and> \<not> ucast (dynmarker vm) \<ge> sz then None
     else Some (vm\<lparr>dynmarker := dynmarker vm - ucast sz\<rparr>))"

text \<open>Two allocations in a row, the second on the state the first one leaves.\<close>

definition vm_heap_alloc_then ::
  "platform \<Rightarrow> filter_vm \<Rightarrow> 64 word \<Rightarrow> int \<Rightarrow> 64 word \<Rightarrow> int \<Rightarrow> (64 word \<times> filter_vm) option" where
  "vm_heap_alloc_then pf vm sz zone sz' zone' =
    (case vm_heap_alloc pf vm sz zone of
       None \<Rightarrow> None
     | Some (p, vm1) \<Rightarrow> vm_heap_alloc pf vm1 sz' zone')"

section \<open>AS loop detection of bgpgrep (main.c)\<close>

text \<open>
  The two nested loops of \<^verbatim>\<open>mrt_find_as_loops\<close> over the array \<^verbatim>\<open>path\<close> of \<open>n\<close> ASes:
  \<^verbatim>\<open>for (i = 2; i < n - 1 && !has_loop; i++)\<close>, with \<^verbatim>\<open>n - 1\<close> computed in \<^verbatim>\<open>uint\<close>, and
  inside \<^verbatim>\<open>for (j = 0; j < i - 2; j++)\<close>. A read outside the array (with \<open>n = 0\<close> the
  array is \<^verbatim>\<open>NULL\<close>) is the outcome \<open>None\<close>.
\<close>

function loop_inner :: "32 word list \<Rightarrow> nat \<Rightarrow> nat \<Rightarrow> bool" where
  "loop_inner path i j =
    (if j < i - 2 then
       (if path ! j = path ! i \<and> path ! j \<noteq> AS_TRANS then True else loop_inner path i (j + 1))
     else False)"
  by pat_completeness auto
termination
  by (relation "measure (\<lambda>(path, i, j). i - 2 - j)") auto

declare loop_inner.simps [simp del]

function loop_outer :: "32 word list \<Rightarrow> nat \<Rightarrow> bool \<Rightarrow> bool option" where
  "loop_outer path i has_loop =
    (if i < unat (of_nat (length path) - 1 :: 32 word) \<and> \<not> has_loop then
       (if i \<ge> length path then None
        else if path ! i = path ! (i - 1) then loop_outer path (i + 1) has_loop
        else if path ! i = AS_TRANS then loop_outer path (i + 1) has_loop
        else loop_outer path (i + 1) (loop_inner path i 0))
     else Some has_loop)"
  by pat_completeness auto
termination
  by (relation "measure (\<lambda>(path, i, h). unat (of_nat (length path) - 1 :: 32 word) - i)") auto

declare loop_outer.simps [simp del]

text \<open>
  The first loop of \<^verbatim>\<open>mrt_find_as_loops\<close> copies the real AS path to temporary heap
  memory, grown by 32 entries at a time; the result is the state at the end of the path
  (\<open>Inl\<close>) or the state aborted for lack of memory (\<open>Inr\<close>). Then the function ends the
  iteration, looks for a loop, gives the memory back and pushes the answer; \<open>None\<close> is a
  run that does not return: a read outside the path, or the assertion of
  \<^verbatim>\<open>vm_heap_return\<close> failed.
\<close>

definition ASPATHSIZ :: nat where "ASPATHSIZ = 32"

record loops_state =
  ls_vm :: filter_vm
  ls_max :: nat
  ls_vaddr :: "64 word"
  ls_path :: "32 word list"

partial_function (option) loops_collect :: "platform \<Rightarrow> loops_state \<Rightarrow> (loops_state + filter_vm) option" where
  "loops_collect pf st =
    (case nextaspath (bgp (ls_vm st)) of
       None \<Rightarrow> None
     | Some (None, msg) \<Rightarrow> Some (Inl (st\<lparr>ls_vm := (ls_vm st)\<lparr>bgp := msg\<rparr>\<rparr>))
     | Some (Some ent, msg) \<Rightarrow>
        (let vm = (ls_vm st)\<lparr>bgp := msg\<rparr> in
         if length (ls_path st) = ls_max st then
           (let mx = ls_max st + ASPATHSIZ in
            case vm_heap_grow pf vm (ls_vaddr st) (of_nat mx * 4) of
              (vaddr, vm1) \<Rightarrow>
                if vaddr = VM_BAD_HEAP_PTR then Some (Inr (vm1\<lparr>error := VM_OUT_OF_MEMORY\<rparr>))
                else loops_collect pf
                       \<lparr>ls_vm = vm1, ls_max = mx, ls_vaddr = vaddr,
                        ls_path = ls_path st @ [ent_as ent]\<rparr>)
         else loops_collect pf (st\<lparr>ls_vm := vm, ls_path := ls_path st @ [ent_as ent]\<rparr>)))"

declare loops_collect.simps [code]

definition mrt_find_as_loops :: "platform \<Rightarrow> filter_vm \<Rightarrow> (filter_vm + filter_vm) option" where
  "mrt_find_as_loops pf vm =
    (let vm1 = vm_exec_settle vm;
         vm2 = vm1\<lparr>bgp := snd (startrealaspath (bgp vm1))\<rparr>
     in case loops_collect pf \<lparr>ls_vm = vm2, ls_max = 0, ls_vaddr = 0, ls_path = []\<rparr> of
          None \<Rightarrow> None
        | Some (Inr a) \<Rightarrow> Some (Inl a)
        | Some (Inl st) \<Rightarrow>
           (case endaspath (bgp (ls_vm st)) of
              (e, msg) \<Rightarrow>
                (let vm3 = (ls_vm st)\<lparr>bgp := msg\<rparr> in
                 if e \<noteq> BGP_ENOERR then Some (vm_abort vm3 VM_BAD_PACKET)
                 else case loop_outer (ls_path st) 2 False of
                        None \<Rightarrow> None
                      | Some has_loop \<Rightarrow>
                         (case vm_heap_return pf vm3 (of_nat (ls_max st) * 4) of
                            None \<Rightarrow> None
                          | Some vm4 \<Rightarrow>
                             Some (vm_pushvalue pf vm4 (if has_loop then 1 else 0))))))"

text \<open>The instructions \<^verbatim>\<open>setup_filter\<close> emits for the options \<^verbatim>\<open>-l\<close> (keep the messages
  with loops) and \<^verbatim>\<open>-L\<close> (discard them) when no other filter is given.\<close>

definition MRT_FIND_AS_LOOPS_FN :: nat where "MRT_FIND_AS_LOOPS_FN = 2"

definition setup_filter_loops :: "bool \<Rightarrow> 16 word list" where
  "setup_filter_loops keep =
    [vm_makeop FOPC_CALL MRT_FIND_AS_LOOPS_FN] @ (if keep then [of_nat FOPC_NOT] else [])
      @ [of_nat FOPC_CFAIL, vm_makeop FOPC_LOAD 1]"


subsection \<open>A virtual machine as bgpgrep sets it up\<close>

text \<open>The function table with \<^verbatim>\<open>mrt_find_as_loops\<close> registered, a platform on which memory
  is granted and assertions are checked (nothing in the sources defines \<^verbatim>\<open>NDEBUG\<close>), an
  UPDATE open for reading whose only attribute is an \<^verbatim>\<open>AS_PATH\<close> with the given value
  bytes, and the virtual machine after \<^verbatim>\<open>filter_init\<close> with a program emitted.\<close>

definition loops_funcs :: "nat \<Rightarrow> (platform \<Rightarrow> filter_vm \<Rightarrow> (filter_vm + filter_vm) option) option" where
  "loops_funcs = (\<lambda>i. if i = MRT_FIND_AS_LOOPS_FN then Some mrt_find_as_loops else None)"

definition intrin_absent :: "nat \<Rightarrow> nat \<Rightarrow> filter_vm \<Rightarrow> (filter_vm + filter_vm) option" where
  "intrin_absent = (\<lambda>opc arg vm. None)"

definition pf0 :: platform where
  "pf0 = \<lparr>mem_ok = True, max_align = 16, ptr_img = (\<lambda>p a. a), asserts = True\<rparr>"

definition env0 :: vm_env where
  "env0 = \<lparr>env_pf = pf0, env_funcs = loops_funcs, env_intrin = intrin_absent\<rparr>"

definition msg_path :: "8 word list \<Rightarrow> ubgp_msg" where
  "msg_path body =
    \<lparr>msgtype = BGP_UPDATE, flags = {F_RD}, err = BGP_ENOERR, attr_aspath = Some body,
     attr_as4path = None, attr_aggregator_as = None, attr_as4aggregator = False,
     asrest = [], as4rest = [], seglen = 0, segi = 0, ascount = 0,
     asp = \<lparr>ent_as_size = 0, ent_type = 0, ent_segno = 0, ent_as = 0\<rparr>\<rparr>"

definition msg_12324 :: ubgp_msg where
  "msg_12324 = msg_path [2, 5, 0, 1, 0, 2, 0, 3, 0, 2, 0, 4]"

definition vm_zero :: filter_vm where
  "vm_zero = filter_init mem0
     \<lparr>bgp = msg_path [], curtrie = 0, curtrie6 = 0, cells = [], stacksiz = 0, tries = [],
      code = [], maxcode = 0, pc = 0, curblk = 0, access_mask = 0, heap_alloced = False,
      highwater = 0, dynmarker = 0, heapsiz = 0, settle_func = None, error = 0\<rparr>"

definition vm_prog :: "16 word list \<Rightarrow> filter_vm" where
  "vm_prog p = vm_zero\<lparr>code := p, maxcode := 128\<rparr>"


text \<open>A virtual machine is ready to run when its two temporary tries are of the right
  families, as \<^verbatim>\<open>filter_init\<close> leaves them, and its stack has room.\<close>

definition vm_ready :: "filter_vm \<Rightarrow> bool" where
  "vm_ready vm = (length (tries vm) \<ge> 2 \<and> maxbitlen (tries vm ! 0) = 32
     \<and> maxbitlen (tries vm ! 1) = 128 \<and> stacksiz vm > 0)"


subsection \<open>Programs of blocks and loads\<close>






subsection \<open>The real AS path as a caller reads it\<close>

text \<open>The loop \<^verbatim>\<open>while ((ent = nextaspath(msg)) != NULL)\<close>, which collects the entries
  returned until \<^verbatim>\<open>NULL\<close>; what is kept of an entry is its segment type and its AS
  number. The real AS path of a message is what this loop reads after
  \<^verbatim>\<open>startrealaspath\<close>.\<close>

definition ent_pair :: "as_pathent \<Rightarrow> nat \<times> 32 word" where
  "ent_pair e = (ent_type e, ent_as e)"

partial_function (option) path_collect :: "ubgp_msg \<Rightarrow> as_pathent list \<Rightarrow> (as_pathent list \<times> ubgp_msg) option" where
  "path_collect msg acc =
    (case nextaspath msg of
       None \<Rightarrow> None
     | Some (None, m) \<Rightarrow> Some (rev acc, m)
     | Some (Some e, m) \<Rightarrow> path_collect m (e # acc))"

declare path_collect.simps [code]

definition emitted :: "ubgp_msg \<Rightarrow> as_pathent list \<Rightarrow> (nat \<times> 32 word) list option" where
  "emitted m acc = map_option (\<lambda>r. map ent_pair (fst r)) (path_collect m acc)"

definition real_as_path :: "ubgp_msg \<Rightarrow> (nat \<times> 32 word) list option" where
  "real_as_path msg = emitted (snd (startrealaspath msg)) []"


subsection \<open>AS path attributes on the wire, and what the specification says of them\<close>

text \<open>
  The value of an \<^verbatim>\<open>AS_PATH\<close> or \<^verbatim>\<open>AS4_PATH\<close> attribute is a sequence of segments: a type
  byte, a count byte, and that many AS numbers of two or four bytes each. A segment is
  kept here as its type byte and the list of its AS numbers, each the list of its
  bytes. It is a segment for AS numbers of \<open>sz\<close> bytes when its count fits the count
  byte and every AS number has \<open>sz\<close> bytes; it may be empty.
\<close>

type_synonym wire_seg = "8 word \<times> 8 word list list"

definition seg_bytes :: "wire_seg \<Rightarrow> 8 word list" where
  "seg_bytes s = fst s # of_nat (length (snd s)) # concat (snd s)"

definition path_bytes :: "wire_seg list \<Rightarrow> 8 word list" where
  "path_bytes segs = concat (map seg_bytes segs)"

definition wf_seg :: "nat \<Rightarrow> wire_seg \<Rightarrow> bool" where
  "wf_seg sz s = (length (snd s) < 256 \<and> list_all (\<lambda>b. length b = sz) (snd s))"

text \<open>The AS number that \<^verbatim>\<open>nextaspath\<close> reads from the bytes of an AS.\<close>

definition as_value :: "nat \<Rightarrow> 8 word list \<Rightarrow> 32 word" where
  "as_value sz b = (if sz = 2 then be16 b else be32 b)"

text \<open>The count of the specification: a set counts 1, a sequence counts its members.\<close>

definition seg_count :: "wire_seg \<Rightarrow> nat" where
  "seg_count s = (if unat (fst s) = AS_SEGMENT_SET then 1 else length (snd s))"

definition path_count :: "wire_seg list \<Rightarrow> nat" where
  "path_count segs = sum_list (map seg_count segs)"

text \<open>
  The entries of a path in order, each with its segment type, its AS number, and the
  flag that tells whether it counts: every member of a sequence does, and the first
  member of a set. \<open>cur_flagged\<close> gives the entries of one segment from its member \<open>i\<close>
  on.
\<close>

fun cur_flagged :: "nat \<Rightarrow> nat \<Rightarrow> nat \<Rightarrow> 8 word list list \<Rightarrow> (bool \<times> nat \<times> 32 word) list" where
  "cur_flagged sz t i [] = []"
| "cur_flagged sz t i (b # bs) =
     (t \<noteq> AS_SEGMENT_SET \<or> i = 0, (t, as_value sz b)) # cur_flagged sz t (Suc i) bs"

definition flagged :: "nat \<Rightarrow> wire_seg list \<Rightarrow> (bool \<times> nat \<times> 32 word) list" where
  "flagged sz segs = concat (map (\<lambda>s. cur_flagged sz (unat (fst s)) 0 (snd s)) segs)"

definition path_entries :: "nat \<Rightarrow> wire_seg list \<Rightarrow> (nat \<times> 32 word) list" where
  "path_entries sz segs = map snd (flagged sz segs)"

text \<open>
  What the specification asks for. The first \<open>k\<close> ASes of a path, a set counting 1: the
  segments are taken in order, a set whole for one unit of \<open>k\<close>, a sequence member by
  member, its first members only when it has more than are left to take. The rule of
  RFC 6793 that the specification states last: with \<^verbatim>\<open>AGGREGATOR\<close> and \<^verbatim>\<open>AS4_AGGREGATOR\<close>
  both present and an aggregator AS other than \<^verbatim>\<open>AS_TRANS\<close>, \<^verbatim>\<open>AS4_PATH\<close> is ignored.
\<close>

fun first_segs :: "nat \<Rightarrow> wire_seg list \<Rightarrow> wire_seg list" where
  "first_segs k [] = []"
| "first_segs k (s # segs) =
     (if k = 0 then []
      else if unat (fst s) = AS_SEGMENT_SET then s # first_segs (k - 1) segs
      else if length (snd s) \<le> k then s # first_segs (k - length (snd s)) segs
      else [(fst s, take k (snd s))])"

definition aggregator_overrides :: "ubgp_msg \<Rightarrow> bool" where
  "aggregator_overrides msg =
    (attr_aggregator_as msg \<noteq> None \<and> attr_as4aggregator msg
     \<and> attr_aggregator_as msg \<noteq> Some AS_TRANS)"

text \<open>
  Two shapes of \<^verbatim>\<open>AS_PATH\<close> on which \<^verbatim>\<open>nextaspath\<close> does not do this, as shown below: a set
  without members, which the counting loop counts but which has no member to count
  down on; and, for a count \<open>k\<close>, a set of several members that is the unit number \<open>k\<close>.
\<close>

definition has_empty_set :: "wire_seg list \<Rightarrow> bool" where
  "has_empty_set segs = list_ex (\<lambda>s. unat (fst s) = AS_SEGMENT_SET \<and> snd s = []) segs"

fun ends_in_set :: "nat \<Rightarrow> wire_seg list \<Rightarrow> bool" where
  "ends_in_set k [] = False"
| "ends_in_set k (s # segs) =
     (if k = 0 then False
      else if unat (fst s) = AS_SEGMENT_SET then
        (if k = 1 then 1 < length (snd s) else ends_in_set (k - 1) segs)
      else if length (snd s) < k then ends_in_set (k - length (snd s)) segs
      else False)"






text \<open>
  Messages open for reading, for speakers of 16 bit ASes: \<^verbatim>\<open>AS_PATH\<close> 5 23456 with
  \<^verbatim>\<open>AS4_PATH\<close> 70000; the same with an \<^verbatim>\<open>AGGREGATOR\<close> of AS 100 and an \<^verbatim>\<open>AS4_AGGREGATOR\<close>;
  \<^verbatim>\<open>AS_PATH\<close> \<open>{1, 2} 3\<close> with \<^verbatim>\<open>AS4_PATH\<close> 70000; \<^verbatim>\<open>AS_PATH\<close> \<open>{1, 2, 3} 9 8\<close> with
  \<^verbatim>\<open>AS4_PATH\<close> 70000; and \<^verbatim>\<open>AS_PATH\<close> \<open>{} 5\<close>, a set without members and then the AS 5, with
  \<^verbatim>\<open>AS4_PATH\<close> 70000.
\<close>

definition segs_5_trans :: "wire_seg list" where
  "segs_5_trans = [(2, [[0, 5], [0x5b, 0xa0]])]"

definition segs_70000 :: "wire_seg list" where
  "segs_70000 = [(2, [[0, 1, 0x11, 0x70]])]"



definition segs_set_seq :: "wire_seg list" where
  "segs_set_seq = [(1, [[0, 1], [0, 2]]), (2, [[0, 3]])]"

definition msg_set :: ubgp_msg where
  "msg_set = (msg_path (path_bytes segs_set_seq))\<lparr>attr_as4path := Some (path_bytes segs_70000)\<rparr>"

definition segs_set3_seq :: "wire_seg list" where
  "segs_set3_seq = [(1, [[0, 1], [0, 2], [0, 3]]), (2, [[0, 9], [0, 8]])]"


definition segs_empty_set :: "wire_seg list" where
  "segs_empty_set = [(1, []), (2, [[0, 5]])]"

definition msg_empty_set :: ubgp_msg where
  "msg_empty_set =
    (msg_path (path_bytes segs_empty_set))\<lparr>attr_as4path := Some (path_bytes segs_70000)\<rparr>"


section \<open>Text form of network addresses (netaddr.c, strutil.h)\<close>

text \<open>
  \<^verbatim>\<open>utoa\<close> and \<^verbatim>\<open>xtoa\<close> write an unsigned value in base 10 and in base 16, the last digit
  first into a buffer filled from its end (\<^verbatim>\<open>do ... while (u > 0)\<close>): no leading zero, and
  the single digit 0 for zero.
\<close>

function utoa :: "nat \<Rightarrow> string" where
  "utoa u = (if u div 10 > 0 then utoa (u div 10) else []) @ [''0123456789'' ! (u mod 10)]"
  by pat_completeness auto
termination
  by (relation "measure id") auto

declare utoa.simps [simp del]

function xtoa :: "nat \<Rightarrow> string" where
  "xtoa val = (if val div 16 > 0 then xtoa (val div 16) else [])
              @ [''0123456789abcdef'' ! (val mod 16)]"
  by pat_completeness auto
termination
  by (relation "measure id") auto

declare xtoa.simps [simp del]

text \<open>
  The members \<^verbatim>\<open>u16\<close> and \<^verbatim>\<open>u32\<close> of the union read the bytes of the address in the byte
  order of the host (\<open>big\<close> for a big endian one); \<^verbatim>\<open>beswap16\<close> swaps the two bytes of a
  16 bit word unless the host is big endian.
\<close>

definition u16h :: "bool \<Rightarrow> 8 word list \<Rightarrow> nat \<Rightarrow> nat" where
  "u16h big bs i =
    (if big then 256 * unat (bs ! (2 * i)) + unat (bs ! (2 * i + 1))
     else unat (bs ! (2 * i)) + 256 * unat (bs ! (2 * i + 1)))"

definition u32h :: "bool \<Rightarrow> 8 word list \<Rightarrow> nat \<Rightarrow> nat" where
  "u32h big bs i =
    (if big then 65536 * u16h big bs (2 * i) + u16h big bs (2 * i + 1)
     else u16h big bs (2 * i) + 65536 * u16h big bs (2 * i + 1))"

definition beswap16 :: "bool \<Rightarrow> nat \<Rightarrow> nat" where
  "beswap16 big w = (if big then w else 256 * (w mod 256) + w div 256)"

text \<open>The four decimal fields of \<^verbatim>\<open>bytes[0..3]\<close> and the eight hexadecimal fields of a
  typical IPv6 address, as \<^verbatim>\<open>naddrtos\<close> writes them before it looks for zeros.\<close>

definition dotted :: "8 word list \<Rightarrow> string" where
  "dotted bs = utoa (unat (bs ! 0)) @ ''.'' @ utoa (unat (bs ! 1)) @ ''.''
               @ utoa (unat (bs ! 2)) @ ''.'' @ utoa (unat (bs ! 3))"

definition groups6 :: "bool \<Rightarrow> 8 word list \<Rightarrow> string" where
  "groups6 big bs =
     xtoa (beswap16 big (u16h big bs 0)) @ '':'' @ xtoa (beswap16 big (u16h big bs 1)) @ '':''
   @ xtoa (beswap16 big (u16h big bs 2)) @ '':'' @ xtoa (beswap16 big (u16h big bs 3)) @ '':''
   @ xtoa (beswap16 big (u16h big bs 4)) @ '':'' @ xtoa (beswap16 big (u16h big bs 5)) @ '':''
   @ xtoa (beswap16 big (u16h big bs 6)) @ '':'' @ xtoa (beswap16 big (u16h big bs 7))"

text \<open>
  The loop that looks for the longest run of \<open>:\<close> and \<open>0\<close> beginning at the start of the
  buffer or at a colon (\<open>best\<close>, \<open>max\<close>, starting from \<open>max = 2\<close>), and the replacement of a
  run longer than 3 by \<open>::\<close>.
\<close>

definition zero_run :: "string \<Rightarrow> nat" where
  "zero_run s = length (takeWhile (\<lambda>c. c = CHR '':'' \<or> c = CHR ''0'') s)"

function best_run :: "string \<Rightarrow> nat \<Rightarrow> nat \<Rightarrow> nat \<Rightarrow> nat \<times> nat" where
  "best_run buf i best mx =
    (if i < length buf then
       (if i > 0 \<and> buf ! i \<noteq> CHR '':'' then best_run buf (i + 1) best mx
        else if zero_run (drop i buf) > mx then best_run buf (i + 1) i (zero_run (drop i buf))
        else best_run buf (i + 1) best mx)
     else (best, mx))"
  by pat_completeness auto
termination
  by (relation "measure (\<lambda>(buf, i, best, mx). length buf - i)") auto

declare best_run.simps [simp del]

definition compress6 :: "string \<Rightarrow> string" where
  "compress6 buf =
    (case best_run buf 0 0 2 of
       (best, mx) \<Rightarrow> if mx > 3 then take best buf @ ''::'' @ drop (best + mx) buf else buf)"

text \<open>
  \<^verbatim>\<open>naddrtos\<close>. An IPv6 address is written in the form of an IPv4 address mapped to IPv6
  when \<^verbatim>\<open>u32[0]\<close>, \<^verbatim>\<open>u32[1]\<close> and \<^verbatim>\<open>u16[4]\<close> are zero and \<^verbatim>\<open>u16[5] == 0xff\<close>; the four
  decimal fields are then those of \<^verbatim>\<open>bytes[0]\<close> to \<^verbatim>\<open>bytes[3]\<close>.
\<close>

definition NADDR_CIDR :: int where "NADDR_CIDR = 0"
definition NADDR_PLAIN :: int where "NADDR_PLAIN = 1"

definition naddrtos :: "bool \<Rightarrow> netaddr \<Rightarrow> int \<Rightarrow> string" where
  "naddrtos big ip mode =
    (let sfx = (if mode = NADDR_CIDR then ''/'' @ utoa (bitlen ip) else [])
     in if family ip = AF_INET then dotted (bytes ip) @ sfx
        else if family ip = AF_INET6 then
          (if u32h big (bytes ip) 0 = 0 \<and> u32h big (bytes ip) 1 = 0 \<and> u16h big (bytes ip) 4 = 0
              \<and> u16h big (bytes ip) 5 = 0xff
           then ''::ffff:'' @ dotted (bytes ip) @ sfx
           else compress6 (groups6 big (bytes ip)) @ sfx)
        else ''invalid'')"

text \<open>
  \<^verbatim>\<open>saddrfamily\<close> looks at the first four characters for a dot or a colon and then at the
  fifth for a colon. \<^verbatim>\<open>stonaddr\<close> cuts the string at its last \<open>/\<close>, reads the length with
  \<^verbatim>\<open>strtol\<close> and the address with \<^verbatim>\<open>inet_pton\<close>; these two functions of the C library are
  parameters here: \<^verbatim>\<open>strtol\<close> gives the value, the text left unread and whether it reported
  a range error. The result is the value returned and the address written.
\<close>

fun saddrfamily_scan :: "nat \<Rightarrow> string \<Rightarrow> int" where
  "saddrfamily_scan 0 s = (case s of [] \<Rightarrow> AF_UNSPEC | c # r \<Rightarrow> if c = CHR '':'' then AF_INET6 else AF_UNSPEC)"
| "saddrfamily_scan (Suc k) [] = AF_UNSPEC"
| "saddrfamily_scan (Suc k) (c # r) =
     (if c = CHR ''.'' then AF_INET else if c = CHR '':'' then AF_INET6
      else saddrfamily_scan k r)"

definition saddrfamily :: "string \<Rightarrow> int" where
  "saddrfamily s = saddrfamily_scan 4 s"

record libc =
  lc_strtol :: "string \<Rightarrow> int \<times> string \<times> bool"
  lc_inet_pton :: "int \<Rightarrow> string \<Rightarrow> 8 word list option"

definition stonaddr :: "libc \<Rightarrow> string \<Rightarrow> int \<times> netaddr" where
  "stonaddr lc s =
    (let af = saddrfamily s;
         maxbitlen = (if af = AF_INET6 then 128 else 32);
         bad = (- 1, \<lparr>family = AF_UNSPEC, bitlen = 0, bytes = zero_bytes\<rparr>);
         conv = (\<lambda>buf len.
                   case lc_inet_pton lc af buf of
                     None \<Rightarrow> bad
                   | Some bs \<Rightarrow> (0, \<lparr>family = af, bitlen = len, bytes = take 16 (bs @ zero_bytes)\<rparr>))
     in if CHR ''/'' \<in> set s then
          (let last = rev (takeWhile (\<lambda>c. c \<noteq> CHR ''/'') (rev s));
               buf = rev (tl (dropWhile (\<lambda>c. c \<noteq> CHR ''/'') (rev s)))
           in case lc_strtol lc last of
                (v, rest, erange) \<Rightarrow>
                  if erange \<or> v < 0 \<or> v > maxbitlen \<or> length rest = length last \<or> rest \<noteq> []
                  then bad
                  else conv buf (nat v))
        else conv s (nat maxbitlen))"

text \<open>IPv6 addresses of length 128 that \<^verbatim>\<open>naddrtos\<close> takes for mapped IPv4 addresses on a
  host of the given byte order (\<open>0:0:0:0:0:ff00:0:k\<close> on a little endian host), and an IPv6
  prefix given by its bytes.\<close>

definition mapped_form :: "bool \<Rightarrow> 8 word \<Rightarrow> netaddr" where
  "mapped_form big k =
    \<lparr>family = AF_INET6, bitlen = 128,
     bytes = zero_bytes[(if big then 11 else 10) := 0xff, 15 := k]\<rparr>"

definition v6 :: "nat \<Rightarrow> 8 word list \<Rightarrow> netaddr" where
  "v6 n bs = \<lparr>family = AF_INET6, bitlen = n, bytes = bs\<rparr>"


section \<open>Properties of the address comparison\<close>

text \<open>
  C2. Claimed: for all addresses and every \<open>n\<close> from 0 to 128, \<^verbatim>\<open>prefixeqwithmask(a, b, n)\<close>
  is true exactly when the first \<open>n\<close> bits of the two addresses are equal. The code
  returns true for \<open>n = 56\<close> on two addresses that differ in bit 55 (the last bit of
  byte 6), because \<^verbatim>\<open>case 56\<close> compares byte 6 of the first address with itself.
\<close>

theorem prefixeqwithmask_56_ignores_byte6:
  "prefixeqwithmask addr_zero6 addr_byte6 56 = Some True
   \<and> \<not> first_bits_equal addr_zero6 addr_byte6 56"
proof -
  have a: "prefixeqwithmask addr_zero6 addr_byte6 56 = Some True"
    by (simp add: prefixeqwithmask_def addr_zero6_def addr_byte6_def zero_bytes_def
        u32eq_def u16eq_def b8eq_def maskdiffer_def)
  have "addr_bit addr_zero6 55 \<noteq> addr_bit addr_byte6 55"
    by (simp add: addr_bit_def addr_zero6_def addr_byte6_def zero_bytes_def)
  moreover have "first_bits x 56 ! 55 = addr_bit x 55" for x
    by (simp add: first_bits_def)
  ultimately have b: "\<not> first_bits_equal addr_zero6 addr_byte6 56"
    unfolding first_bits_equal_def by metis
  from a b show ?thesis by simp
qed


section \<open>Properties of the Patricia trie\<close>

subsection \<open>Running the operations on a concrete trie\<close>

lemma hd_rev_page: "hd (rev [b..<b + 128]) = b + 127"
  by (simp add: hd_rev)

lemma tl_rev_page: "tl (rev [b..<b + 128]) = rev [b..<b + 127]"
proof -
  have a: "b + 128 = Suc (b + 127)" by simp
  have "[b..<Suc (b + 127)] = [b..<b + 127] @ [b + 127]"
    by (rule upt_Suc_append) (rule le_add1)
  then show ?thesis unfolding a by (simp only: rev_append rev.simps append.simps list.sel)
qed

lemma getfreenode_page:
  "freenodes pt = [] \<Longrightarrow> getfreenode True pt =
     (Some (128 * pages pt + 127),
      pt\<lparr>pages := pages pt + 1, freenodes := rev [128 * pages pt ..< 128 * pages pt + 127]\<rparr>)"
  by (simp add: getfreenode_def Let_def hd_rev_page tl_rev_page)

lemma getfreenode_rev:
  "freenodes pt = rev [0..<Suc k] \<Longrightarrow> getfreenode ok pt = (Some k, pt\<lparr>freenodes := rev [0..<k]\<rparr>)"
  by (simp add: getfreenode_def)

lemma getfreenode_num:
  "freenodes pt = rev [0..<numeral k] \<Longrightarrow>
     getfreenode ok pt = (Some (pred_numeral k), pt\<lparr>freenodes := rev [0..<pred_numeral k]\<rparr>)"
  by (simp add: getfreenode_rev numeral_eq_Suc)

lemmas trie_run =
  patinsert_def patinit_def upd_def Let_def AF_INET_def AF_INET6_def AF_UNSPEC_def
  insert_at_def pnodeinit_def insert_descend.simps insert_ascend.simps search_walk.simps
  children_def set_children_def keybit_def PREFIX_INSERTED_def PREFIX_ALREADY_PRESENT_def
  mknode_def gluepfx_def mem0_def v4_def patsearchexact_def patcompwithmask_def

lemmas iter_run =
  pat_emitted_def patiteratorinit_def patiteratornext_def patiteratorget_def
  patiteratormovenext_def patiteratorskipglue.simps iterate_from.simps

text \<open>
  C4. Claimed: right after \<^verbatim>\<open>patinsert(p)\<close> succeeds, \<^verbatim>\<open>patsearchexact(p)\<close> finds a node
  holding \<open>p\<close>. On the empty IPv4 trie, 10.0.0.0/16 and then 10.0.0.0/8 are inserted;
  both calls return a node and report \<^verbatim>\<open>PREFIX_INSERTED\<close>. The second insertion hangs the
  new node and the old one under a glue node of length 8, since the branch that would
  make the new prefix the parent repeats the test of the branch before it and is never
  taken. The search for 10.0.0.0/8 stops at that glue node and returns \<^verbatim>\<open>NULL\<close>.
\<close>

theorem patinsert_supernet_not_found:
  "patinsert True trie0 (v4 10 0 0 0 16) = Some (Some 127, PREFIX_INSERTED, trieA1)
   \<and> patinsert True trieA1 (v4 10 0 0 0 8) = Some (Some 126, PREFIX_INSERTED, trieA2)
   \<and> patsearchexact trieA2 (v4 10 0 0 0 8) = Some None"
proof -
  have 1: "patinsert True trie0 (v4 10 0 0 0 16) = Some (Some 127, PREFIX_INSERTED, trieA1)"
    by (simp add: trie_run trie0_def trieA1_def getfreenode_page cong: let_weak_cong)
  have 2: "patinsert True trieA1 (v4 10 0 0 0 8) = Some (Some 126, PREFIX_INSERTED, trieA2)"
    by (simp add: trie_run trieA1_def trieA2_def getfreenode_num cong: let_weak_cong)
  have 3: "patsearchexact trieA2 (v4 10 0 0 0 8) = Some None"
    by (simp add: trie_run trieA2_def cong: let_weak_cong)
  from 1 2 3 show ?thesis by simp
qed

text \<open>
  C5. Claimed: the iterator emits each inserted prefix exactly once. On the empty IPv4
  trie, 0.0.0.0/2, 64.0.0.0/2 and 0.0.0.0/1 are inserted, three distinct prefixes. The
  second insertion makes a glue node of length 1; the third finds that glue node as its
  exact match and, because the test \<^verbatim>\<open>ispnodeglue(n)\<close> returns early on glue instead of
  on a stored prefix, returns it unchanged. The iterator then emits two prefixes only.
\<close>

theorem iterator_misses_prefix_at_glue:
  "patinsert True trie0 (v4 0 0 0 0 2) = Some (Some 127, PREFIX_INSERTED, trieB1)
   \<and> patinsert True trieB1 (v4 64 0 0 0 2) = Some (Some 126, PREFIX_INSERTED, trieB2)
   \<and> patinsert True trieB2 (v4 0 0 0 0 1) = Some (Some 125, PREFIX_ALREADY_PRESENT, trieB2)
   \<and> pat_emitted trieB2 = Some [v4 0 0 0 0 2, v4 64 0 0 0 2]"
proof -
  have 1: "patinsert True trie0 (v4 0 0 0 0 2) = Some (Some 127, PREFIX_INSERTED, trieB1)"
    by (simp add: trie_run trie0_def trieB1_def getfreenode_page cong: let_weak_cong)
  have 2: "patinsert True trieB1 (v4 64 0 0 0 2) = Some (Some 126, PREFIX_INSERTED, trieB2)"
    by (simp add: trie_run trieB1_def trieB2_def getfreenode_num cong: let_weak_cong)
  have 3: "patinsert True trieB2 (v4 0 0 0 0 1) = Some (Some 125, PREFIX_ALREADY_PRESENT, trieB2)"
    by (simp add: trie_run trieB2_def getfreenode_num cong: let_weak_cong)
  have 4: "pat_emitted trieB2 = Some [v4 0 0 0 0 2, v4 64 0 0 0 2]"
    by (simp add: trie_run iter_run trieB2_def cong: let_weak_cong)
  from 1 2 3 4 show ?thesis by simp
qed

text \<open>
  C10. Claimed: removing a prefix that is not stored returns \<^verbatim>\<open>NULL\<close> and leaves the trie
  unchanged, the count \<^verbatim>\<open>nprefs\<close> included. The code returns \<^verbatim>\<open>NULL\<close> and leaves the nodes
  alone, but it has already decremented \<^verbatim>\<open>nprefs\<close>: the decrement stands before the test
  of the search result. On the empty trie the count wraps round to \<open>2^32 - 1\<close>.
\<close>

theorem patremove_absent_decrements:
  "patsearchexact pt p = Some None \<Longrightarrow>
   patremove img pt p = Some (0, pt\<lparr>nprefs := nprefs pt - 1\<rparr>)
   \<and> nprefs (pt\<lparr>nprefs := nprefs pt - 1\<rparr>) \<noteq> nprefs pt"
  by (simp add: patremove_def)

theorem patremove_absent_decrements_witness:
  "\<forall>img. patsearchexact trie0 (v4 10 0 0 0 8) = Some None
     \<and> patremove img trie0 (v4 10 0 0 0 8) = Some (0, trie0\<lparr>nprefs := 0xFFFFFFFF\<rparr>)"
proof
  fix img
  have s: "patsearchexact trie0 (v4 10 0 0 0 8) = Some None"
    by (simp add: patsearchexact_def trie0_def patinit_def)
  have n: "nprefs trie0 = 0" by (simp add: trie0_def patinit_def)
  from patremove_absent_decrements [OF s, of img] s n
  show "patsearchexact trie0 (v4 10 0 0 0 8) = Some None
     \<and> patremove img trie0 (v4 10 0 0 0 8) = Some (0, trie0\<lparr>nprefs := 0xFFFFFFFF\<rparr>)"
    by simp
qed

subsection \<open>Coverage\<close>

lemma u128shl_one: "u128shl 1 k = 2 ^ k"
  by (simp add: u128shl_def push_bit_eq_mult)

lemma uint_difference:
  assumes "b \<le> m" and "m \<le> 128"
  shows "unat (of_nat m - of_nat b :: 32 word) = m - b"
proof -
  have "(of_nat m - of_nat b :: 32 word) = of_nat (m - b)"
    using assms(1) by simp
  moreover have "m - b < 2 ^ 32" using assms(2) by simp
  ultimately show ?thesis by (simp add: unat_of_nat)
qed

lemma coverage_loop_None: "coverage_loop ns maxbits None stk cov = Some cov"
  by (subst coverage_loop.simps) simp

lemma coverage_loop_counted:
  "counted (ns n) \<Longrightarrow>
   coverage_loop ns maxbits (Some n) stk cov =
     pop_continue ns maxbits stk
       (cov + u128shl 1 (unat (of_nat maxbits - of_nat (bitlen (prefix (ns n))) :: 32 word)))"
  by (subst coverage_loop.simps)
     (simp add: counted_def pop_continue_def coverage_loop_None split: list.splits)

lemma coverage_loop_uncounted:
  "\<not> counted (ns n) \<Longrightarrow>
   coverage_loop ns maxbits (Some n) stk cov =
     (case child0 (ns n) of
        Some l \<Rightarrow>
          (case child1 (ns n) of
             Some r \<Rightarrow>
               if length stk < maxbits + 1 then coverage_loop ns maxbits (Some l) (r # stk) cov
               else None
           | None \<Rightarrow> coverage_loop ns maxbits (Some l) stk cov)
      | None \<Rightarrow>
          (case child1 (ns n) of
             Some r \<Rightarrow> coverage_loop ns maxbits (Some r) stk cov
           | None \<Rightarrow> pop_continue ns maxbits stk cov))"
  by (subst coverage_loop.simps)
     (auto simp add: counted_def pop_continue_def coverage_loop_None
        split: list.splits option.splits)

text \<open>The walk of a subtree adds the sum over its topmost counting nodes and goes on with
  the stack as it found it.\<close>

lemma coverage_subtree:
  "is_shape ns (Some n) t \<Longrightarrow> length stk + stack_need ns t \<le> maxbits + 1 \<Longrightarrow>
   fits ns maxbits (top_nodes ns t) \<Longrightarrow> maxbits \<le> 128 \<Longrightarrow>
   coverage_loop ns maxbits (Some n) stk cov
     = pop_continue ns maxbits stk (cov + space_sum ns maxbits (top_nodes ns t))"
proof (induction t arbitrary: n stk cov)
  case Tip
  then show ?case by simp
next
  case (Br i l r)
  from Br.prems(1) have ni: "n = i" and sl: "is_shape ns (child0 (ns i)) l"
    and sr: "is_shape ns (child1 (ns i)) r" by auto
  show ?case
  proof (cases "counted (ns i)")
    case True
    with Br.prems ni show ?thesis
      by (simp add: coverage_loop_counted space_sum_def fits_def u128shl_one uint_difference)
  next
    case False
    show ?thesis
    proof (cases l)
      case lt: Tip
      with sl have c0: "child0 (ns i) = None" by (cases "child0 (ns i)") simp_all
      show ?thesis
      proof (cases r)
        case rt: Tip
        with sr have c1: "child1 (ns i) = None" by (cases "child1 (ns i)") simp_all
        from False lt rt c0 c1 ni show ?thesis
          by (simp add: coverage_loop_uncounted space_sum_def)
      next
        case (Br j rl rr)
        with sr have c1: "child1 (ns i) = Some j" by (cases "child1 (ns i)") simp_all
        have "coverage_loop ns maxbits (Some j) stk cov
                = pop_continue ns maxbits stk (cov + space_sum ns maxbits (top_nodes ns r))"
          using Br.IH(2)[of j stk cov] sr c1 Br.prems False lt Br by simp
        with False lt c0 c1 ni show ?thesis
          by (simp add: coverage_loop_uncounted)
      qed
    next
      case lb: (Br j ll lr)
      with sl have c0: "child0 (ns i) = Some j" by (cases "child0 (ns i)") simp_all
      show ?thesis
      proof (cases r)
        case rt: Tip
        with sr have c1: "child1 (ns i) = None" by (cases "child1 (ns i)") simp_all
        have "coverage_loop ns maxbits (Some j) stk cov
                = pop_continue ns maxbits stk (cov + space_sum ns maxbits (top_nodes ns l))"
          using Br.IH(1)[of j stk cov] sl c0 Br.prems False lb rt by simp
        with False rt c0 c1 ni show ?thesis
          by (simp add: coverage_loop_uncounted)
      next
        case rb: (Br k rl rr)
        with sr have c1: "child1 (ns i) = Some k" by (cases "child1 (ns i)") simp_all
        from Br.prems False lb rb have need: "length stk + Suc (stack_need ns l) \<le> maxbits + 1"
          and needr: "length stk + stack_need ns r \<le> maxbits + 1" by simp_all
        from Br.prems(3) False have fl: "fits ns maxbits (top_nodes ns l)"
          and fr: "fits ns maxbits (top_nodes ns r)" by (simp_all add: fits_def)
        have 1: "coverage_loop ns maxbits (Some j) (k # stk) cov
                = pop_continue ns maxbits (k # stk) (cov + space_sum ns maxbits (top_nodes ns l))"
          using Br.IH(1)[of j "k # stk" cov] sl c0 need fl Br.prems(4) by simp
        have 2: "coverage_loop ns maxbits (Some k) stk (cov + space_sum ns maxbits (top_nodes ns l))
                = pop_continue ns maxbits stk
                    (cov + space_sum ns maxbits (top_nodes ns l)
                       + space_sum ns maxbits (top_nodes ns r))"
          using Br.IH(2)[of k stk] sr c1 needr fr Br.prems(4) by simp
        from need have room: "length stk < maxbits + 1" by simp
        from False c0 c1 ni room 1 2 show ?thesis
          by (simp add: coverage_loop_uncounted pop_continue_def space_sum_def add.assoc)
      qed
    qed
  qed
qed

text \<open>
  C8, as the code has it. For a trie whose nodes form a tree \<open>t\<close>, whose counting nodes
  have lengths within \<^verbatim>\<open>maxbitlen\<close> (at most 128) and whose walk fits the stack of
  \<^verbatim>\<open>maxbitlen + 1\<close> slots, \<^verbatim>\<open>patcoverage\<close> returns the sum of \<open>2 ^ (maxbitlen - bitlen)\<close>,
  in 128 bits, over the stored prefixes other than the default route that lie under no
  other such prefix: a prefix stored below a counted one adds nothing.
\<close>

theorem patcoverage_topmost:
  assumes "is_shape (nodes pt) (head pt) t"
    and "stack_need (nodes pt) t \<le> maxbitlen pt + 1"
    and "fits (nodes pt) (maxbitlen pt) (top_nodes (nodes pt) t)"
    and "maxbitlen pt \<le> 128"
  shows "patcoverage pt = Some (space_sum (nodes pt) (maxbitlen pt) (top_nodes (nodes pt) t))"
proof (cases "head pt")
  case None
  with assms(1) have "t = Tip" by (cases t) simp_all
  with None show ?thesis
    by (simp add: patcoverage_def coverage_loop_None space_sum_def)
next
  case (Some h)
  with assms show ?thesis
    using coverage_subtree[of "nodes pt" h t "[]" "maxbitlen pt" 0]
    by (simp add: patcoverage_def pop_continue_def)
qed

lemmas shape_run =
  trieC2_def shapeC2_def mknode_def v4_def mem0_def pnodeinit_def counted_def fits_def
  space_sum_def stored_nodes_def claimed_coverage_def AF_INET_def AF_UNSPEC_def

theorem patcoverage_topmost_witness:
  "is_shape (nodes trieC2) (head trieC2) shapeC2
   \<and> stack_need (nodes trieC2) shapeC2 \<le> maxbitlen trieC2 + 1
   \<and> fits (nodes trieC2) (maxbitlen trieC2) (top_nodes (nodes trieC2) shapeC2)
   \<and> maxbitlen trieC2 \<le> 128
   \<and> patcoverage trieC2 = Some 16777216"
proof -
  have 1: "is_shape (nodes trieC2) (head trieC2) shapeC2" by (simp add: shape_run)
  have 2: "stack_need (nodes trieC2) shapeC2 \<le> maxbitlen trieC2 + 1" by (simp add: shape_run)
  have 3: "fits (nodes trieC2) (maxbitlen trieC2) (top_nodes (nodes trieC2) shapeC2)"
    by (simp add: shape_run)
  have 4: "maxbitlen trieC2 \<le> 128" by (simp add: shape_run)
  have 5: "space_sum (nodes trieC2) (maxbitlen trieC2) (top_nodes (nodes trieC2) shapeC2)
             = 16777216"
    by (simp add: shape_run)
  from patcoverage_topmost [OF 1 2 3 4] 1 2 3 4 5 show ?thesis by simp
qed

text \<open>
  C8, as claimed: the sum over all stored prefixes but the default route. After the
  insertion of 8.0.0.0/8 and 8.2.0.0/16 that sum is \<open>2^24 + 2^16\<close>, and \<^verbatim>\<open>patcoverage\<close>
  returns \<open>2^24\<close>, the value \<^verbatim>\<open>testpatcoverage\<close> expects.
\<close>

theorem patcoverage_not_all_prefixes:
  "patinsert True trie0 (v4 8 0 0 0 8) = Some (Some 127, PREFIX_INSERTED, trieC1)
   \<and> patinsert True trieC1 (v4 8 2 0 0 16) = Some (Some 126, PREFIX_INSERTED, trieC2)
   \<and> is_shape (nodes trieC2) (head trieC2) shapeC2
   \<and> claimed_coverage trieC2 shapeC2 = 16842752
   \<and> patcoverage trieC2 = Some 16777216
   \<and> patcoverage trieC2 \<noteq> Some (claimed_coverage trieC2 shapeC2)"
proof -
  have 1: "patinsert True trie0 (v4 8 0 0 0 8) = Some (Some 127, PREFIX_INSERTED, trieC1)"
    by (simp add: trie_run trie0_def trieC1_def getfreenode_page cong: let_weak_cong)
  have 2: "patinsert True trieC1 (v4 8 2 0 0 16) = Some (Some 126, PREFIX_INSERTED, trieC2)"
    by (simp add: trie_run trieC1_def trieC2_def getfreenode_num cong: let_weak_cong)
  have 3: "is_shape (nodes trieC2) (head trieC2) shapeC2" by (simp add: shape_run)
  have 4: "claimed_coverage trieC2 shapeC2 = 16842752" by (simp add: shape_run)
  have 5: "patcoverage trieC2 = Some 16777216"
    by (simp add: patcoverage_def coverage_loop.simps u128shl_def shape_run
        cong: let_weak_cong)
  from 1 2 3 4 5 show ?thesis by simp
qed

section \<open>Properties of the filter virtual machine\<close>

subsection \<open>Single steps and short programs\<close>

lemma maxbitlen_putfreenode: "maxbitlen (putfreenode img pt n) = maxbitlen pt"
  by (simp add: putfreenode_def Let_def)

lemma maxbitlen_foldl_put: "maxbitlen (foldl (putfreenode img) pt ns) = maxbitlen pt"
  by (induction ns arbitrary: pt) (simp_all add: maxbitlen_putfreenode)

lemma maxbitlen_patclear: "maxbitlen (patclear img pt) = maxbitlen pt"
  by (simp add: patclear_def maxbitlen_foldl_put)


lemmas opc_defs = FOPC_NOP_def FOPC_BLK_def FOPC_ENDBLK_def FOPC_LOAD_def FOPC_LOADK_def
  FOPC_UNPACK_def FOPC_EXARG_def FOPC_STORE_def FOPC_DISCARD_def FOPC_NOT_def FOPC_CPASS_def
  FOPC_CFAIL_def FOPC_SETTLE_def FOPC_CALL_def FOPC_SETTRIE_def FOPC_SETTRIE6_def
  FOPC_CLRTRIE_def FOPC_CLRTRIE6_def

lemma step_load:
  "vm_getopcode (code vm ! pc vm) = FOPC_LOAD \<Longrightarrow>
   exec_step env vm x =
     Some (lift_step 0 (vm_pushvalue (env_pf env) (vm\<lparr>pc := pc vm + 1\<rparr>)
                          (int (vm_extendarg (vm_getarg (code vm ! pc vm)) x))))"
  by (simp add: exec_step_def Let_def opc_defs)





lemma step_not:
  "vm_getopcode (code vm ! pc vm) = FOPC_NOT \<Longrightarrow> cells vm = v # rest \<Longrightarrow>
   exec_step env vm x =
     Some (Next (vm\<lparr>pc := pc vm + 1, cells := (if v = 0 then 1 else 0) # rest\<rparr>) x)"
  by (simp add: exec_step_def Let_def opc_defs)

lemma step_cfail_top:
  "vm_getopcode (code vm ! pc vm) = FOPC_CFAIL \<Longrightarrow> cells vm = v # rest \<Longrightarrow> v \<noteq> 0 \<Longrightarrow>
   curblk vm = 0 \<Longrightarrow>
   exec_step env vm x = Some (Done (vm\<lparr>pc := pc vm + 1, cells := 0 # rest\<rparr>))"
  by (simp add: exec_step_def Let_def opc_defs)

lemma step_cfail_zero:
  "vm_getopcode (code vm ! pc vm) = FOPC_CFAIL \<Longrightarrow> cells vm = 0 # rest \<Longrightarrow>
   exec_step env vm x = Some (Next (vm\<lparr>pc := pc vm + 1, cells := rest\<rparr>) x)"
  by (simp add: exec_step_def Let_def opc_defs)

lemma step_call:
  "vm_getopcode (code vm ! pc vm) = FOPC_CALL \<Longrightarrow>
   vm_extendarg (vm_getarg (code vm ! pc vm)) x = a \<Longrightarrow> a < VM_FUNCS_COUNT \<Longrightarrow>
   env_funcs env a = Some f \<Longrightarrow>
   exec_step env vm x = map_option (lift_step 0) (f (env_pf env) (vm\<lparr>pc := pc vm + 1\<rparr>))"
  by (simp add: exec_step_def Let_def opc_defs)

lemma op_load1: "vm_getopcode (vm_makeop FOPC_LOAD 1) = FOPC_LOAD"
  by (simp add: vm_getopcode_def vm_makeop_def FOPC_LOAD_def)


lemma arg_load1: "vm_extendarg (vm_getarg (vm_makeop FOPC_LOAD 1)) 0 = 1"
  by (simp add: vm_getarg_def vm_extendarg_def vm_makeop_def FOPC_LOAD_def)




lemma op_not: "vm_getopcode (of_nat FOPC_NOT) = FOPC_NOT"
  by (simp add: vm_getopcode_def FOPC_NOT_def)

lemma op_cfail: "vm_getopcode (of_nat FOPC_CFAIL) = FOPC_CFAIL"
  by (simp add: vm_getopcode_def FOPC_CFAIL_def)

lemma op_call: "vm_getopcode (vm_makeop FOPC_CALL MRT_FIND_AS_LOOPS_FN) = FOPC_CALL"
  by (simp add: vm_getopcode_def vm_makeop_def FOPC_CALL_def MRT_FIND_AS_LOOPS_FN_def)

lemma arg_call: "vm_extendarg (vm_getarg (vm_makeop FOPC_CALL MRT_FIND_AS_LOOPS_FN)) 0 = 2"
  by (simp add: vm_getarg_def vm_extendarg_def vm_makeop_def FOPC_CALL_def MRT_FIND_AS_LOOPS_FN_def)













lemma loop_done:
  "pc vm < length (code vm) \<Longrightarrow> exec_step env vm x = Some (Done vm1) \<Longrightarrow>
   exec_loop env vm x = Some (Done vm1)"
  by (subst exec_loop.simps) simp
















subsection \<open>The AS loop filter of bgpgrep\<close>

lemmas msg_run = startrealaspath_def checktypeandflags_def checkflags_def invop_def endpending_def
  endaspath_def endfield_def nextaspath.simps segment_header.simps be16_def be32_def
  BGP_UPDATE_def BGP_ENOERR_def BGP_EINVOP_def BGP_EBADATTR_def AS_SEGMENT_SET_def AS_TRANS_def

lemmas heap_run = vm_heap_grow_def vm_heap_ensure_def vm_heap_return_def align_size_def
  VM_BAD_HEAP_PTR_def

lemmas loops_run = mrt_find_as_loops_def loops_collect.simps loop_outer.simps loop_inner.simps
  ASPATHSIZ_def vm_exec_settle_def vm_pushvalue_def vm_abort_def VM_OUT_OF_MEMORY_def

lemma path_12324: "map_option (map snd) (real_as_path msg_12324) = Some [1, 2, 3, 2, 4]"
  by (simp add: real_as_path_def emitted_def ent_pair_def path_collect.simps msg_run
      msg_12324_def msg_path_def cong: let_weak_cong)

lemma outer_12324: "loop_outer [1, 2, 3, 2, 4] 2 False = Some False"
  by (simp add: loop_outer.simps loop_inner.simps AS_TRANS_def)

lemma filter_start_prog:
  "\<exists>vm1. filter_start env0 msg (vm_prog p) = Inr vm1 \<and> cells vm1 = [] \<and> pc vm1 = 0
     \<and> curblk vm1 = 0 \<and> code vm1 = p \<and> stacksiz vm1 = 256 \<and> settle_func vm1 = None
     \<and> bgp vm1 = msg \<and> dynmarker vm1 = 0 \<and> highwater vm1 = 0 \<and> heapsiz vm1 = 0"
  by (simp add: vm_ready_def filter_start_def Let_def vm_exec_settrie_def
      vm_exec_settrie6_def VM_TMPTRIE_def VM_TMPTRIE6_def vm_exec_clrtrie_def
      vm_exec_clrtrie6_def vm_abort_def vm_prog_def vm_zero_def filter_init_def patinit_def
      AF_INET_def AF_INET6_def)

lemma find_12324:
  assumes "bgp vm = msg_12324" "settle_func vm = None" "dynmarker vm = 0" "highwater vm = 0"
    "heapsiz vm = 0" "cells vm = []" "stacksiz vm = 256"
  shows "\<exists>vm'. mrt_find_as_loops pf0 vm = Some (Inr vm') \<and> cells vm' = [0] \<and> code vm' = code vm
     \<and> pc vm' = pc vm \<and> curblk vm' = curblk vm \<and> settle_func vm' = None \<and> stacksiz vm' = 256"
  using assms
  by (simp add: loops_run heap_run msg_run pf0_def msg_12324_def msg_path_def
      cong: let_weak_cong)



lemma funcs_loops: "env_funcs env0 2 = Some mrt_find_as_loops"
  by (simp add: env0_def loops_funcs_def MRT_FIND_AS_LOOPS_FN_def)

lemma pf_env0: "env_pf env0 = pf0"
  by (simp add: env0_def)

lemma call_12324:
  assumes v: "bgp vm = msg_12324" "settle_func vm = None" "dynmarker vm = 0" "highwater vm = 0"
    "heapsiz vm = 0" "cells vm = []" "stacksiz vm = 256"
    and c: "pc vm = 0" "code vm = ip # rest"
    and o: "vm_getopcode ip = FOPC_CALL" and a: "vm_extendarg (vm_getarg ip) 0 = 2"
  shows "\<exists>vm'. exec_step env0 vm 0 = Some (Next vm' 0) \<and> cells vm' = [0] \<and> code vm' = code vm
     \<and> pc vm' = 1 \<and> curblk vm' = curblk vm \<and> settle_func vm' = None \<and> stacksiz vm' = 256"
proof -
  have o': "vm_getopcode (code vm ! pc vm) = FOPC_CALL" using c o by simp
  have a': "vm_extendarg (vm_getarg (code vm ! pc vm)) 0 = 2" using c a by simp
  have n: "(2 :: nat) < VM_FUNCS_COUNT" by (simp add: VM_FUNCS_COUNT_def)
  have e: "exec_step env0 vm 0
           = map_option (lift_step 0) (mrt_find_as_loops pf0 (vm\<lparr>pc := pc vm + 1\<rparr>))"
    using step_call [OF o' a' n funcs_loops] by (simp only: pf_env0)
  from find_12324 [of "vm\<lparr>pc := pc vm + 1\<rparr>"] v c obtain vm' where
    "mrt_find_as_loops pf0 (vm\<lparr>pc := pc vm + 1\<rparr>) = Some (Inr vm')" "cells vm' = [0]"
    "code vm' = code vm" "pc vm' = 1" "curblk vm' = curblk vm" "settle_func vm' = None"
    "stacksiz vm' = 256"
    by auto
  with e show ?thesis by (simp add: lift_step_def)
qed

lemma run_call_not_cfail:
  assumes p: "p = [ip, ip2, ip3, ip4]"
    and o: "vm_getopcode ip = FOPC_CALL" and a: "vm_extendarg (vm_getarg ip) 0 = 2"
    and o2: "vm_getopcode ip2 = FOPC_NOT" and o3: "vm_getopcode ip3 = FOPC_CFAIL"
  shows "map_option fst (bgp_filter env0 msg_12324 (vm_prog p)) = Some 0"
proof -
  from filter_start_prog [of msg_12324 p] obtain vm1 where
    s: "filter_start env0 msg_12324 (vm_prog p) = Inr vm1"
    and f: "cells vm1 = []" "pc vm1 = 0" "curblk vm1 = 0" "code vm1 = p" "stacksiz vm1 = 256"
      "settle_func vm1 = None" "bgp vm1 = msg_12324" "dynmarker vm1 = 0" "highwater vm1 = 0"
      "heapsiz vm1 = 0"
    by blast
  from call_12324 [of vm1 ip "[ip2, ip3, ip4]"] f p o a obtain vm2 where
    st1: "exec_step env0 vm1 0 = Some (Next vm2 0)"
    and g: "cells vm2 = [0]" "code vm2 = p" "pc vm2 = Suc 0" "curblk vm2 = 0"
      "settle_func vm2 = None"
    by auto
  have st2: "exec_step env0 vm2 0 = Some (Next (vm2\<lparr>pc := 2, cells := [1]\<rparr>) 0)"
    using g p o2 by (simp add: step_not)
  have st3: "exec_step env0 (vm2\<lparr>pc := 2, cells := [1]\<rparr>) 0
             = Some (Done (vm2\<lparr>pc := 3, cells := [0]\<rparr>))"
    using g p o3 by (simp add: step_cfail_top)
  have l3: "exec_loop env0 (vm2\<lparr>pc := 2, cells := [1]\<rparr>) 0
            = Some (Done (vm2\<lparr>pc := 3, cells := [0]\<rparr>))"
    using g p by (subst exec_loop.simps) (simp add: st3)
  have l2: "exec_loop env0 vm2 0 = Some (Done (vm2\<lparr>pc := 3, cells := [0]\<rparr>))"
    using g p by (subst exec_loop.simps) (simp add: st2 l3)
  have l1: "exec_loop env0 vm1 0 = Some (Done (vm2\<lparr>pc := 3, cells := [0]\<rparr>))"
    using f p by (subst exec_loop.simps) (simp add: st1 l2)
  show ?thesis
    using g by (simp add: bgp_filter_def s l1 filter_done_def Let_def vm_exec_settle_def)
qed

lemma run_call_cfail_load:
  assumes p: "p = [ip, ip2, ip3]"
    and o: "vm_getopcode ip = FOPC_CALL" and a: "vm_extendarg (vm_getarg ip) 0 = 2"
    and o2: "vm_getopcode ip2 = FOPC_CFAIL"
    and o3: "vm_getopcode ip3 = FOPC_LOAD" and a3: "vm_extendarg (vm_getarg ip3) 0 = 1"
  shows "map_option fst (bgp_filter env0 msg_12324 (vm_prog p)) = Some 1"
proof -
  from filter_start_prog [of msg_12324 p] obtain vm1 where
    s: "filter_start env0 msg_12324 (vm_prog p) = Inr vm1"
    and f: "cells vm1 = []" "pc vm1 = 0" "curblk vm1 = 0" "code vm1 = p" "stacksiz vm1 = 256"
      "settle_func vm1 = None" "bgp vm1 = msg_12324" "dynmarker vm1 = 0" "highwater vm1 = 0"
      "heapsiz vm1 = 0"
    by blast
  from call_12324 [of vm1 ip "[ip2, ip3]"] f p o a obtain vm2 where
    st1: "exec_step env0 vm1 0 = Some (Next vm2 0)"
    and g: "cells vm2 = [0]" "code vm2 = p" "pc vm2 = Suc 0" "curblk vm2 = 0"
      "settle_func vm2 = None" "stacksiz vm2 = 256"
    by auto
  have st2: "exec_step env0 vm2 0 = Some (Next (vm2\<lparr>pc := 2, cells := []\<rparr>) 0)"
    using g p o2 by (simp add: step_cfail_zero)
  have st3: "exec_step env0 (vm2\<lparr>pc := 2, cells := []\<rparr>) 0
             = Some (Next (vm2\<lparr>pc := 3, cells := [1]\<rparr>) 0)"
    using g p o3 a3 by (simp add: step_load vm_pushvalue_def lift_step_def)
  have l4: "exec_loop env0 (vm2\<lparr>pc := 3, cells := [1]\<rparr>) 0
            = Some (Done (vm2\<lparr>pc := 3, cells := [1]\<rparr>))"
    using g p by (subst exec_loop.simps) simp
  have l3: "exec_loop env0 (vm2\<lparr>pc := 2, cells := []\<rparr>) 0
            = Some (Done (vm2\<lparr>pc := 3, cells := [1]\<rparr>))"
    using g p by (subst exec_loop.simps) (simp add: st3 l4)
  have l2: "exec_loop env0 vm2 0 = Some (Done (vm2\<lparr>pc := 3, cells := [1]\<rparr>))"
    using g p by (subst exec_loop.simps) (simp add: st2 l3)
  have l1: "exec_loop env0 vm1 0 = Some (Done (vm2\<lparr>pc := 3, cells := [1]\<rparr>))"
    using f p by (subst exec_loop.simps) (simp add: st1 l2)
  show ?thesis
    using g by (simp add: bgp_filter_def s l1 filter_done_def Let_def vm_exec_settle_def)
qed

text \<open>
  C3. Claimed: on an UPDATE whose real AS path is 1 2 3 2 4 the function
  \<^verbatim>\<open>mrt_find_as_loops\<close> pushes true, so that the filter of \<^verbatim>\<open>-l\<close> matches and the filter of
  \<^verbatim>\<open>-L\<close> does not. The code does the opposite: the inner loop runs over \<open>j < i - 2\<close>, so
  that at \<open>i = 3\<close> only \<open>path[0]\<close> is compared with \<open>path[3]\<close>, the AS 2 at index 1 is
  never looked at, and the function pushes false. The filter of \<^verbatim>\<open>-l\<close> returns 0 (no
  match) and the filter of \<^verbatim>\<open>-L\<close> returns 1 (match).
\<close>

theorem as_loop_12324_not_detected:
  "map_option (map snd) (real_as_path msg_12324) = Some [1, 2, 3, 2, 4]
   \<and> loop_outer [1, 2, 3, 2, 4] 2 False = Some False
   \<and> map_option fst (bgp_filter env0 msg_12324 (vm_prog (setup_filter_loops True))) = Some 0
   \<and> map_option fst (bgp_filter env0 msg_12324 (vm_prog (setup_filter_loops False))) = Some 1"
proof -
  have k: "setup_filter_loops True = [vm_makeop FOPC_CALL MRT_FIND_AS_LOOPS_FN, of_nat FOPC_NOT,
               of_nat FOPC_CFAIL, vm_makeop FOPC_LOAD 1]"
    by (simp add: setup_filter_loops_def)
  have d: "setup_filter_loops False = [vm_makeop FOPC_CALL MRT_FIND_AS_LOOPS_FN,
               of_nat FOPC_CFAIL, vm_makeop FOPC_LOAD 1]"
    by (simp add: setup_filter_loops_def)
  note a = run_call_not_cfail [OF k op_call arg_call op_not op_cfail]
  note b = run_call_cfail_load [OF d op_call arg_call op_cfail op_load1 arg_load1]
  from path_12324 outer_12324 a b show ?thesis by (simp only: simp_thms)
qed


subsection \<open>The two zones of the heap\<close>

lemma marks_not_bad: "(ucast (a :: 32 word) + ucast (b :: 32 word) :: 64 word) \<noteq> VM_BAD_HEAP_PTR"
proof -
  have le: "unat (ucast w :: 64 word) < 2 ^ 32" for w :: "32 word"
  proof -
    have "unat (ucast w :: 64 word) \<le> unat w"
      by (simp add: unsigned_ucast_eq take_bit_nat_less_eq_self)
    moreover have "unat w < 2 ^ 32" using unsigned_less [of w, where 'a = nat] by simp
    ultimately show ?thesis by simp
  qed
  have "unat (ucast a + ucast b :: 64 word) \<le> unat (ucast a :: 64 word) + unat (ucast b :: 64 word)"
    by (simp add: unat_word_ariths)
  with le [of a] le [of b] have "unat (ucast a + ucast b :: 64 word) < 2 ^ 33" by simp
  moreover have "unat (VM_BAD_HEAP_PTR) = 2 ^ 64 - 1"
    by (simp add: VM_BAD_HEAP_PTR_def unsigned_minus_1_eq_mask mask_eq_exp_minus_1)
  ultimately show ?thesis by auto
qed

lemma mark_not_bad: "(ucast (a :: 32 word) :: 64 word) \<noteq> VM_BAD_HEAP_PTR"
  using marks_not_bad [of a 0] by simp

lemma ensure_marks:
  "highwater (snd (vm_heap_ensure pf vm n)) = highwater vm
   \<and> dynmarker (snd (vm_heap_ensure pf vm n)) = dynmarker vm"
  by (simp add: vm_heap_ensure_def Let_def)

lemma ensure_alloced:
  "fst (vm_heap_ensure pf vm n) \<Longrightarrow> heap_alloced (snd (vm_heap_ensure pf vm n))"
  by (simp add: vm_heap_ensure_def Let_def split: if_splits)

lemma ensure_ok:
  "mem_ok pf \<Longrightarrow> heap_alloced vm \<Longrightarrow> fst (vm_heap_ensure pf vm n)"
  by (simp add: vm_heap_ensure_def Let_def)

lemma perm_refused:
  "dynmarker vm \<noteq> 0 \<Longrightarrow>
   vm_heap_alloc pf vm sz VM_HEAP_PERM =
     (if fst (vm_heap_ensure pf vm (align_size (max_align pf) sz)) \<and> asserts pf then None
      else Some (VM_BAD_HEAP_PTR, snd (vm_heap_ensure pf vm (align_size (max_align pf) sz))))"
  using ensure_marks [of pf vm "align_size (max_align pf) sz"]
  by (cases "vm_heap_ensure pf vm (align_size (max_align pf) sz)")
     (auto simp add: vm_heap_alloc_def Let_def word_greater_zero_iff split: bool.splits)

lemma perm_alloced:
  "vm_heap_alloc pf vm sz VM_HEAP_PERM = Some (p, vm1) \<Longrightarrow> p \<noteq> VM_BAD_HEAP_PTR \<Longrightarrow>
   heap_alloced vm1"
  using ensure_alloced [of pf vm "align_size (max_align pf) sz"]
  by (cases "vm_heap_ensure pf vm (align_size (max_align pf) sz)")
     (auto simp add: vm_heap_alloc_def Let_def split: if_splits bool.splits)

lemma temp_served:
  "mem_ok pf \<Longrightarrow> heap_alloced vm \<Longrightarrow>
   map_option fst (vm_heap_alloc pf vm sz VM_HEAP_TEMP)
     = Some (ucast (highwater vm) + ucast (dynmarker vm))"
  using ensure_ok [of pf vm "align_size (max_align pf) sz"]
    ensure_marks [of pf vm "align_size (max_align pf) sz"]
  by (cases "vm_heap_ensure pf vm (align_size (max_align pf) sz)")
     (auto simp add: vm_heap_alloc_def Let_def VM_HEAP_TEMP_def VM_HEAP_PERM_def split: bool.splits)

text \<open>
  C7. Claimed: a \<^verbatim>\<open>VM_HEAP_TEMP\<close> allocation requested after a \<^verbatim>\<open>VM_HEAP_PERM\<close> allocation is
  rejected with \<^verbatim>\<open>VM_BAD_HEAP_PTR\<close>. The code refuses the opposite order. A permanent
  allocation requested while temporary memory is in use (\<^verbatim>\<open>dynmarker > 0\<close>) never gets an
  offset: when \<^verbatim>\<open>vm_heap_ensure\<close> finds or makes room for it, the assertion fails and the
  call does not return, or, with assertions compiled out, it returns
  \<^verbatim>\<open>VM_BAD_HEAP_PTR\<close>; when \<^verbatim>\<open>vm_heap_ensure\<close> fails it returns \<^verbatim>\<open>VM_BAD_HEAP_PTR\<close>; the marks
  are left as they were. A temporary allocation that follows a permanent one that
  returned an offset is served, when memory is granted, at the offset
  \<^verbatim>\<open>highwater + dynmarker\<close>, which is never the bad pointer.
\<close>

theorem vm_heap_alloc_zone_order:
  "(dynmarker vm \<noteq> 0 \<longrightarrow>
      vm_heap_alloc pf vm sz VM_HEAP_PERM =
        (if fst (vm_heap_ensure pf vm (align_size (max_align pf) sz)) \<and> asserts pf then None
         else Some (VM_BAD_HEAP_PTR, snd (vm_heap_ensure pf vm (align_size (max_align pf) sz))))
      \<and> highwater (snd (vm_heap_ensure pf vm (align_size (max_align pf) sz))) = highwater vm
      \<and> dynmarker (snd (vm_heap_ensure pf vm (align_size (max_align pf) sz))) = dynmarker vm)
   \<and> (mem_ok pf \<and> vm_heap_alloc pf vm sz VM_HEAP_PERM = Some (p, vm1) \<and> p \<noteq> VM_BAD_HEAP_PTR \<longrightarrow>
        map_option fst (vm_heap_alloc pf vm1 sz' VM_HEAP_TEMP)
          = Some (ucast (highwater vm1) + ucast (dynmarker vm1))
        \<and> (ucast (highwater vm1) + ucast (dynmarker vm1) :: 64 word) \<noteq> VM_BAD_HEAP_PTR)"
  using perm_refused [of vm pf sz] perm_alloced [of pf vm sz p vm1]
    temp_served [of pf vm1 sz'] marks_not_bad [of "highwater vm1" "dynmarker vm1"]
    ensure_marks [of pf vm "align_size (max_align pf) sz"]
  by auto

lemmas alloc_run = vm_heap_alloc_def vm_heap_alloc_then_def vm_heap_ensure_def align_size_def
  pf0_def vm_zero_def filter_init_def VM_HEAP_PERM_def VM_HEAP_TEMP_def VM_BAD_HEAP_PTR_def

theorem vm_heap_alloc_zone_order_witness:
  "dynmarker (snd (the (vm_heap_alloc pf0 vm_zero 16 VM_HEAP_TEMP))) \<noteq> 0
   \<and> vm_heap_alloc pf0 (snd (the (vm_heap_alloc pf0 vm_zero 16 VM_HEAP_TEMP))) 16 VM_HEAP_PERM
       = None
   \<and> vm_heap_alloc (pf0\<lparr>asserts := False\<rparr>)
        (snd (the (vm_heap_alloc pf0 vm_zero 16 VM_HEAP_TEMP))) 16 VM_HEAP_PERM
       = Some (VM_BAD_HEAP_PTR, snd (the (vm_heap_alloc pf0 vm_zero 16 VM_HEAP_TEMP)))
   \<and> mem_ok pf0
   \<and> vm_heap_alloc pf0 vm_zero 16 VM_HEAP_PERM
       = Some (0, snd (the (vm_heap_alloc pf0 vm_zero 16 VM_HEAP_PERM)))
   \<and> (0 :: 64 word) \<noteq> VM_BAD_HEAP_PTR
   \<and> map_option fst
        (vm_heap_alloc pf0 (snd (the (vm_heap_alloc pf0 vm_zero 16 VM_HEAP_PERM))) 16 VM_HEAP_TEMP)
       = Some 16"
proof -
  let ?t = "snd (the (vm_heap_alloc pf0 vm_zero 16 VM_HEAP_TEMP))"
  let ?p = "snd (the (vm_heap_alloc pf0 vm_zero 16 VM_HEAP_PERM))"
  have a: "dynmarker ?t \<noteq> 0"
    by (simp add: alloc_run cong: let_weak_cong)
  have e: "vm_heap_ensure pf0 ?t (align_size (max_align pf0) 16) = (True, ?t)"
    "vm_heap_ensure (pf0\<lparr>asserts := False\<rparr>) ?t
       (align_size (max_align (pf0\<lparr>asserts := False\<rparr>)) 16) = (True, ?t)"
    "asserts pf0"
    by (simp_all add: alloc_run cong: let_weak_cong)
  have b: "mem_ok pf0" by (simp add: pf0_def)
  have c: "vm_heap_alloc pf0 vm_zero 16 VM_HEAP_PERM = Some (0, ?p)"
    by (simp add: alloc_run cong: let_weak_cong)
  have d: "(0 :: 64 word) \<noteq> VM_BAD_HEAP_PTR" by (simp add: VM_BAD_HEAP_PTR_def)
  have m: "(ucast (highwater ?p) + ucast (dynmarker ?p) :: 64 word) = 16"
    by (simp add: alloc_run cong: let_weak_cong)
  from vm_heap_alloc_zone_order [of ?t pf0 16 0 ?p 16]
    vm_heap_alloc_zone_order [of ?t "pf0\<lparr>asserts := False\<rparr>" 16 0 ?p 16]
    vm_heap_alloc_zone_order [of vm_zero pf0 16 0 ?p 16] a b c d e m
  show ?thesis by simp
qed

text \<open>On the virtual machine that \<^verbatim>\<open>filter_init\<close> leaves, a permanent allocation of 16
  bytes is served at offset 0 and the temporary allocation that follows it at offset
  16.\<close>

theorem temp_after_perm_is_served:
  "map_option fst (vm_heap_alloc pf0 vm_zero 16 VM_HEAP_PERM) = Some 0
   \<and> map_option fst (vm_heap_alloc_then pf0 vm_zero 16 VM_HEAP_PERM 16 VM_HEAP_TEMP) = Some 16
   \<and> (16 :: 64 word) \<noteq> VM_BAD_HEAP_PTR"
  by (simp add: alloc_run cong: let_weak_cong)

section \<open>Properties of the text form of addresses\<close>

lemmas fmt_run = naddrtos_def dotted_def groups6_def compress6_def u16h_def u32h_def beswap16_def
  utoa.simps xtoa.simps best_run.simps zero_run_def NADDR_CIDR_def NADDR_PLAIN_def
  AF_INET_def AF_INET6_def zero_bytes_def mapped_form_def v6_def v4_def

text \<open>The formatter on the addresses of the library's test \<^verbatim>\<open>testnetaddr\<close>, and on an
  IPv4 address mapped to IPv6, which is written as a typical IPv6 address.\<close>

lemma naddrtos_test_table:
  "naddrtos False (v6 127 [0x2a, 0, 0x14, 0x50, 0x40, 0x02, 0x08, 0, 0, 0, 0, 0, 0, 0, 0x20, 0x02])
     NADDR_CIDR = ''2a00:1450:4002:800::2002/127''
   \<and> naddrtos False (v6 128 [0x20, 1, 0x06, 0x7c, 0x1b, 0x08, 0, 3, 0, 1, 0, 0, 0, 0, 0, 1])
     NADDR_PLAIN = ''2001:67c:1b08:3:1::1''
   \<and> naddrtos False (v6 0 zero_bytes) NADDR_CIDR = ''::/0''
   \<and> naddrtos False (v4 8 2 0 0 16) NADDR_CIDR = ''8.2.0.0/16''
   \<and> naddrtos False (v6 128 [0, 0, 0, 0, 0, 0, 0, 0, 0, 0, 0xff, 0xff, 1, 2, 3, 4]) NADDR_PLAIN
       = ''::ffff:102:304''"
  by (simp add: fmt_run cong: let_weak_cong)

lemma mapped_form_text:
  "naddrtos big (mapped_form big k) NADDR_CIDR = ''::ffff:0.0.0.0/128''"
  by (cases big) (simp_all add: fmt_run cong: let_weak_cong)

text \<open>
  C9. Claimed: parsing the CIDR text that \<^verbatim>\<open>naddrtos\<close> produces gives the address back,
  for every IPv6 address of length at most 128. The test for a mapped IPv4 address
  compares \<^verbatim>\<open>u16[5]\<close> with \<^verbatim>\<open>0xff\<close> and the branch prints \<^verbatim>\<open>bytes[0..3]\<close>, which are zero
  there: two different addresses are written as the same text \<open>::ffff:0.0.0.0/128\<close>, so
  that \<^verbatim>\<open>stonaddr\<close>, whatever \<^verbatim>\<open>strtol\<close> and \<^verbatim>\<open>inet_pton\<close> do, cannot give both back.
\<close>

theorem naddrtos_mapped_form_collision:
  "naddrtos big (mapped_form big 1) NADDR_CIDR = ''::ffff:0.0.0.0/128''
   \<and> naddrtos big (mapped_form big 2) NADDR_CIDR = ''::ffff:0.0.0.0/128''
   \<and> mapped_form big 1 \<noteq> mapped_form big 2
   \<and> \<not> (snd (stonaddr lc (naddrtos big (mapped_form big 1) NADDR_CIDR)) = mapped_form big 1
         \<and> snd (stonaddr lc (naddrtos big (mapped_form big 2) NADDR_CIDR)) = mapped_form big 2)"
proof -
  have "bytes (mapped_form big 1) ! 15 = 1" "bytes (mapped_form big 2) ! 15 = 2"
    by (simp_all add: mapped_form_def zero_bytes_def)
  then have d: "mapped_form big 1 \<noteq> mapped_form big 2"
    by auto
  show ?thesis
    using d by (auto simp add: mapped_form_text)
qed


section \<open>Properties of the AS path iterator\<close>

subsection \<open>The counting loops\<close>






subsection \<open>One call of nextaspath\<close>





subsection \<open>The collecting loop\<close>










subsection \<open>Counts and leading entries\<close>

















subsection \<open>What startrealaspath and nextaspath do\<close>




subsection \<open>The first ASes of a path against the entries read\<close>









subsection \<open>Reconciliation of AS_PATH and AS4_PATH\<close>


lemmas wire_run = path_bytes_def seg_bytes_def wf_seg_def path_count_def seg_count_def
  flagged_def path_entries_def as_value_def be16_def be32_def AS_SEGMENT_SET_def
  has_empty_set_def aggregator_overrides_def
  segs_5_trans_def segs_70000_def segs_set_seq_def segs_set3_seq_def segs_empty_set_def

lemmas msg_run2 = startrealaspath_def checktypeandflags_def checkflags_def invop_def endpending_def
  endaspath_def endfield_def nextaspath.simps segment_header.simps be16_def be32_def
  BGP_UPDATE_def BGP_ENOERR_def BGP_EINVOP_def BGP_EBADATTR_def AS_SEGMENT_SET_def AS_TRANS_def
  count_segments.simps



text \<open>
  The two shapes left out, where \<^verbatim>\<open>nextaspath\<close> departs from the count it is given. It
  decrements \<^verbatim>\<open>ascount\<close> on the first member of a set and switches to \<^verbatim>\<open>AS4_PATH\<close> at the
  next entry it reads with \<^verbatim>\<open>ascount == 0\<close>: a set that is the last unit to take is cut
  after its first member, while a set before the last unit is kept whole. With
  \<^verbatim>\<open>AS_PATH\<close> \<open>{1, 2} 3\<close> and \<^verbatim>\<open>AS4_PATH\<close> 70000 the first AS to take is the set \<open>{1, 2}\<close>, and
  the code gives 1 and then 70000.
\<close>

lemma real_as_path_set_cut:
  "real_as_path msg_set = Some [(1, 1), (2, 70000)]
   \<and> path_entries 2 (first_segs 1 segs_set_seq) @ path_entries 4 segs_70000
       = [(1, 1), (1, 2), (2, 70000)]
   \<and> ends_in_set 1 segs_set_seq \<and> path_count segs_set_seq = 2 \<and> path_count segs_70000 = 1"
proof -
  have "real_as_path msg_set = Some [(1, 1), (2, 70000)]"
    by (simp add: real_as_path_def emitted_def ent_pair_def path_collect.simps msg_run2
        msg_set_def msg_path_def path_bytes_def seg_bytes_def segs_set_seq_def segs_70000_def
        cong: let_weak_cong)
  moreover have "path_entries 2 (first_segs 1 segs_set_seq) @ path_entries 4 segs_70000
       = [(1, 1), (1, 2), (2, 70000)]"
    "ends_in_set 1 segs_set_seq" "path_count segs_set_seq = 2" "path_count segs_70000 = 1"
    by (simp_all add: wire_run)
  ultimately show ?thesis by simp
qed

text \<open>
  A set without members is counted 1 by \<^verbatim>\<open>startrealaspath\<close> but gives \<^verbatim>\<open>nextaspath\<close> no
  entry on which to count down. With \<^verbatim>\<open>AS_PATH\<close> \<open>{} 5\<close>, which counts 2, and \<^verbatim>\<open>AS4_PATH\<close>
  70000 the first AS to take is the empty set, so that the path asked for is 70000; the
  code reads 5, reaches the end of \<^verbatim>\<open>AS_PATH\<close> and never reads \<^verbatim>\<open>AS4_PATH\<close>.
\<close>

lemma real_as_path_empty_set:
  "real_as_path msg_empty_set = Some [(2, 5)]
   \<and> path_entries 2 (first_segs 1 segs_empty_set) @ path_entries 4 segs_70000 = [(2, 70000)]
   \<and> has_empty_set segs_empty_set \<and> path_count segs_empty_set = 2
   \<and> path_count segs_70000 = 1"
proof -
  have "real_as_path msg_empty_set = Some [(2, 5)]"
    by (simp add: real_as_path_def emitted_def ent_pair_def path_collect.simps msg_run2
        msg_empty_set_def msg_path_def path_bytes_def seg_bytes_def segs_empty_set_def
        segs_70000_def cong: let_weak_cong)
  moreover have "path_entries 2 (first_segs 1 segs_empty_set) @ path_entries 4 segs_70000
       = [(2, 70000)]"
    "has_empty_set segs_empty_set" "path_count segs_empty_set = 2" "path_count segs_70000 = 1"
    by (simp_all add: wire_run)
  ultimately show ?thesis by simp
qed

end
